theory Spec2Isabelle
  imports Main "HOL-Library.Sublist"
begin

section \<open>Exceptions\<close>

text \<open>
  The installers raise \<^verbatim>\<open>InstallationError(message)\<close> and catch
  \<^verbatim>\<open>subprocess.TimeoutExpired\<close>; the specification of the command runner
  speaks of a \<^verbatim>\<open>TimeoutError\<close>. The three are kept apart: an
  \<^verbatim>\<open>except (InstallationError, TimeoutExpired)\<close> clause does not catch a
  \<^verbatim>\<open>TimeoutError\<close>.
\<close>

datatype exn = InstallationError string | TimeoutExpired | TimeoutError

section \<open>The module \<^verbatim>\<open>cli\<close>: warning classifier and command runner\<close>

text \<open>
  \<^verbatim>\<open>installers.py\<close> imports \<^verbatim>\<open>car_apt_warning\<close> and \<^verbatim>\<open>comm\<close> from
  the module \<^verbatim>\<open>cli\<close>, which is not among the sources. Both are modelled from the
  specification (sections 4.1 and 4.2).
\<close>

definition newline :: char where
  "newline = CHR 0x0A"

text \<open>
  The lines of a text: the pieces between newline characters; a newline at the very
  end closes the last line and opens no further one, and the empty text has no line.
\<close>

fun lines_of :: "string \<Rightarrow> string list" where
  "lines_of [] = []"
| "lines_of (c # cs) =
     (if c = newline then [] # lines_of cs
      else (case lines_of cs of [] \<Rightarrow> [[c]] | l # ls \<Rightarrow> (c # l) # ls))"

text \<open>A line matches the allow-list when one of the listed texts occurs in it.\<close>

definition benign_line :: "string list \<Rightarrow> string \<Rightarrow> bool" where
  "benign_line allow l = list_ex (\<lambda>b. sublist b l) allow"

text \<open>
  Modelled from the spec: \<^verbatim>\<open>car_apt_warning\<close> of the absent module \<^verbatim>\<open>cli\<close>.
  ``Given stderr text from an apt invocation, scan it against a fixed list of known
  benign substrings. If every line matches a benign pattern, classify as not an error
  (return empty); otherwise return the original text.'' The allow-list itself is not
  in the sources either and is the parameter \<open>allow\<close>.
\<close>

definition car_apt_warning :: "string list \<Rightarrow> string \<Rightarrow> string" where
  "car_apt_warning allow errs =
     (if list_all (benign_line allow) (lines_of errs) then [] else errs)"

text \<open>
  What the subordinate shell process of a command does: it completes after some time
  with its captured standard output, standard error and exit code, or it never
  completes.
\<close>

datatype process = Completes nat string string int | Hangs

text \<open>
  Modelled from the spec: \<^verbatim>\<open>comm\<close> of the absent module \<^verbatim>\<open>cli\<close>.
  ``Given a command string and a timeout, run it in a subordinate shell process;
  capture standard output and standard error as text; if the process does not complete
  within the timeout, fail with a TimeoutError. Return both captured streams to the
  caller regardless of exit code.'' The shell is the parameter \<open>shell\<close>, which gives
  the process of each command; time is counted in whole units.
\<close>

definition comm :: "(string \<Rightarrow> process) \<Rightarrow> string \<Rightarrow> nat \<Rightarrow> exn + string \<times> string" where
  "comm shell cmd timeout =
     (case shell cmd of
        Completes t outs errs code \<Rightarrow>
          if t \<le> timeout then Inr (outs, errs) else Inl TimeoutError
      | Hangs \<Rightarrow> Inl TimeoutError)"

section \<open>The environment of \<^verbatim>\<open>installers.py\<close>\<close>

text \<open>
  Everything the installers take from outside: the working directory read by
  \<^verbatim>\<open>Path.cwd()\<close> at import, \<^verbatim>\<open>shutil.which\<close>, and the two functions of
  \<^verbatim>\<open>cli\<close>. The runner is given the commands run before (oldest first) and the
  command to run, and either raises or returns the pair (stdout, stderr), so that it
  may answer the same command differently each time. The classifier is a function of
  the text alone.
\<close>

record env =
  CURRENT_PATH :: string
  which :: "string \<Rightarrow> string option"
  cli_comm :: "string list \<Rightarrow> string \<Rightarrow> exn + string \<times> string"
  cli_car_apt_warning :: "string \<Rightarrow> string"

definition CONFIG_FILES_PATH :: "env \<Rightarrow> string" where
  "CONFIG_FILES_PATH env = CURRENT_PATH env @ ''/files''"

definition DOWNLOADS_PATH :: "env \<Rightarrow> string" where
  "DOWNLOADS_PATH env = CURRENT_PATH env @ ''/inst_downloads''"

section \<open>Programs: state, exceptions, sequencing\<close>

text \<open>
  The effects of an installer are the commands it hands to the runner and the lines it
  prints. A program takes the state and returns its result (an exception raised, or a
  value returned) with the new state.
\<close>

record state =
  trace :: "string list"
  printed :: "string list"

type_synonym 'a prog = "state \<Rightarrow> (exn + 'a) \<times> state"

definition ret :: "'a \<Rightarrow> 'a prog" where
  "ret x s = (Inr x, s)"

definition raise :: "exn \<Rightarrow> 'a prog" where
  "raise e s = (Inl e, s)"

definition then_do :: "'a prog \<Rightarrow> ('a \<Rightarrow> 'b prog) \<Rightarrow> 'b prog" where
  "then_do m k s = (case m s of (Inl e, s') \<Rightarrow> (Inl e, s') | (Inr x, s') \<Rightarrow> k x s')"

definition print :: "string \<Rightarrow> unit prog" where
  "print text s = (Inr (), s\<lparr>printed := printed s @ [text]\<rparr>)"

text \<open>\<^verbatim>\<open>comm(cmd)\<close>: the call is recorded whether the runner returns or raises.\<close>

definition call_comm :: "env \<Rightarrow> string \<Rightarrow> (string \<times> string) prog" where
  "call_comm env cmd s = (cli_comm env (trace s) cmd, s\<lparr>trace := trace s @ [cmd]\<rparr>)"

text \<open>\<^verbatim>\<open>try: body  except (InstallationError, TimeoutExpired): handler\<close>\<close>

fun caught :: "exn \<Rightarrow> bool" where
  "caught (InstallationError m) = True"
| "caught TimeoutExpired = True"
| "caught TimeoutError = False"

definition try_except :: "'a prog \<Rightarrow> 'a prog \<Rightarrow> 'a prog" where
  "try_except body handler s =
     (case body s of
        (Inl e, s') \<Rightarrow> if caught e then handler s' else (Inl e, s')
      | (Inr x, s') \<Rightarrow> (Inr x, s'))"

section \<open>The package lists\<close>

definition list_apt_pkgs :: "string list" where
  "list_apt_pkgs =
     [''build-essential'', ''python3-dev'', ''pkg-config'',
      ''apt-transport-https'', ''cmake'', ''curl'', ''ca-certificates'', ''gnupg'',
      ''lsb-release'',
      ''htop'', ''mmv'', ''neovim'', ''tmux'']"

definition list_snap_pkgs :: "string list" where
  "list_snap_pkgs =
     [''bitwarden'', ''jdownloader2'', ''libreoffice'', ''signal-desktop'', ''spotify'',
      ''vlc'',
      ''sublime-text --classic'', ''code --classic'']"

section \<open>The installers\<close>

text \<open>
  The source's variable \<^verbatim>\<open>errs_\<close> (the stderr text before classification) is
  written \<open>errs_raw\<close>. A text is true in a condition exactly when it is not empty.
\<close>

definition pre_install :: "env \<Rightarrow> bool prog" where
  "pre_install env =
     then_do (call_comm env (''mkdir '' @ DOWNLOADS_PATH env)) (\<lambda>(_, errs).
     then_do (if errs \<noteq> [] then raise (InstallationError ''Failed pre-installation procedure.'')
              else ret ()) (\<lambda>_.
     ret True))"

text \<open>The \<^verbatim>\<open>for pkg in pkgs\<close> loop of \<^verbatim>\<open>install_apt_pkgs\<close>.\<close>

primrec install_apt_pkgs_loop :: "env \<Rightarrow> string list \<Rightarrow> unit prog" where
  "install_apt_pkgs_loop env [] = ret ()"
| "install_apt_pkgs_loop env (pkg # pkgs) =
     then_do (print (''Installing '' @ pkg @ ''...'')) (\<lambda>_.
     then_do (call_comm env (''apt install -y '' @ pkg)) (\<lambda>(_, errs_raw).
     then_do (if errs_raw \<noteq> [] then
                (let errs = cli_car_apt_warning env errs_raw in
                 if errs \<noteq> [] then raise (InstallationError (''Failed to install '' @ pkg @ ''.''))
                 else ret ())
              else ret ()) (\<lambda>_.
     install_apt_pkgs_loop env pkgs)))"

definition install_apt_pkgs :: "env \<Rightarrow> bool prog" where
  "install_apt_pkgs env =
     then_do (print ''Installing Apt packages...'') (\<lambda>_.
     then_do (install_apt_pkgs_loop env list_apt_pkgs) (\<lambda>_.
     then_do (print ''Apt packages successfully installed.'') (\<lambda>_.
     ret True)))"

text \<open>
  The first loop of \<^verbatim>\<open>install_snap_pkgs\<close>: each package is appended to
  \<^verbatim>\<open>flg_pkgs\<close> when \<^verbatim>\<open>"--classic" in pkg\<close>, to \<^verbatim>\<open>unflg_pkgs\<close>
  otherwise. The result is the pair (\<^verbatim>\<open>unflg_pkgs\<close>, \<^verbatim>\<open>flg_pkgs\<close>).
\<close>

primrec separate_flagged :: "string list \<Rightarrow> string list \<times> string list \<Rightarrow> string list \<times> string list" where
  "separate_flagged [] acc = acc"
| "separate_flagged (pkg # pkgs) acc =
     (case acc of (unflg_pkgs, flg_pkgs) \<Rightarrow>
        if sublist ''--classic'' pkg
        then separate_flagged pkgs (unflg_pkgs, flg_pkgs @ [pkg])
        else separate_flagged pkgs (unflg_pkgs @ [pkg], flg_pkgs))"

text \<open>
  The two installing loops of \<^verbatim>\<open>install_snap_pkgs\<close> have the same body. The
  command is \<^verbatim>\<open>f"{install_cmd} {pkg}"\<close> with \<^verbatim>\<open>install_cmd = "snap install "\<close>,
  hence the two spaces.
\<close>

primrec install_snap_pkgs_loop :: "env \<Rightarrow> string list \<Rightarrow> unit prog" where
  "install_snap_pkgs_loop env [] = ret ()"
| "install_snap_pkgs_loop env (pkg # pkgs) =
     then_do (print (''Installing '' @ pkg @ ''...'')) (\<lambda>_.
     then_do (call_comm env (''snap install '' @ '' '' @ pkg)) (\<lambda>(_, errs).
     then_do (if errs \<noteq> [] then raise (InstallationError (''Failed to install '' @ pkg @ ''.''))
              else ret ()) (\<lambda>_.
     install_snap_pkgs_loop env pkgs)))"

definition install_snap_pkgs :: "env \<Rightarrow> bool prog" where
  "install_snap_pkgs env =
     (case separate_flagged list_snap_pkgs ([], []) of (unflg_pkgs, flg_pkgs) \<Rightarrow>
     then_do (print ''Installing Snap packages...'') (\<lambda>_.
     then_do (install_snap_pkgs_loop env flg_pkgs) (\<lambda>_.
     then_do (install_snap_pkgs_loop env unflg_pkgs) (\<lambda>_.
     then_do (print ''Snap packages were successfully installed.'') (\<lambda>_.
     ret True)))))"

definition install_brave_browser :: "env \<Rightarrow> bool prog" where
  \<open>install_brave_browser env =
     then_do (print ''Getting Brave Browser's signing keys...'') (\<lambda>_.
     then_do (call_comm env (''curl -fsSLo /usr/share/keyrings/brave-browser-archive-keyring.gpg '' @
        ''https://brave-browser-apt-release.s3.brave.com/brave-browser-archive-keyring.gpg'')) (\<lambda>(_, errs).
     then_do (if errs \<noteq> [] then raise (InstallationError ''Failed to add Brave Browser's fingerprint.'')
              else ret ()) (\<lambda>_.
     then_do (print ''Successfully added Brave Browser's signing keys.'') (\<lambda>_.
     then_do (print ''Adding Brave Browser's apt repository...'') (\<lambda>_.
     then_do (call_comm env (''echo '' @
        ''"deb [signed-by=/usr/share/keyrings/brave-browser-archive-keyring.gpg arch=amd64] '' @
        ''https://brave-browser-apt-release.s3.brave.com/ stable main"'' @
        '' | '' @
        ''tee /etc/apt/sources.list.d/brave-browser-release.list'')) (\<lambda>(_, errs).
     then_do (if errs \<noteq> [] then raise (InstallationError ''Failed to add Brave Browser's ppa.'')
              else ret ()) (\<lambda>_.
     then_do (print ''Successfully added Brave Browser's apt repository.'') (\<lambda>_.
     then_do (print ''Installing brave-browser...'') (\<lambda>_.
     then_do (call_comm env ''apt update -y && apt install -y brave-browser'') (\<lambda>(_, errs_raw).
     then_do (if errs_raw \<noteq> [] then
                (let errs = cli_car_apt_warning env errs_raw in
                 if errs \<noteq> [] then raise (InstallationError ''Failed to install Brave Browser's apt package.'')
                 else ret ())
              else ret ()) (\<lambda>_.
     then_do (print ''Installation successful.'') (\<lambda>_.
     ret True))))))))))))\<close>

text \<open>The \<^verbatim>\<open>for pkg in pkgs\<close> loop of \<^verbatim>\<open>install_docker\<close>.\<close>

primrec install_docker_loop :: "env \<Rightarrow> string list \<Rightarrow> unit prog" where
  "install_docker_loop env [] = ret ()"
| "install_docker_loop env (pkg # pkgs) =
     then_do (print (''Installing '' @ pkg @ ''...'')) (\<lambda>_.
     then_do (call_comm env (''apt install -y '' @ pkg)) (\<lambda>(_, errs_raw).
     then_do (if errs_raw \<noteq> [] then
                (let errs = cli_car_apt_warning env errs_raw in
                 if errs \<noteq> [] then raise (InstallationError (''Failed to install Docker '' @ pkg @ ''.''))
                 else ret ())
              else ret ()) (\<lambda>_.
     install_docker_loop env pkgs)))"

definition install_docker :: "env \<Rightarrow> bool prog" where
  \<open>install_docker env =
     then_do (print ''Adding Docker signing keys...'') (\<lambda>_.
     then_do (call_comm env (''curl -fsSL https://download.docker.com/linux/ubuntu/gpg'' @
        '' | '' @
        ''gpg --dearmor -o /usr/share/keyrings/docker-archive-keyring.gpg'')) (\<lambda>(_, errs).
     then_do (if errs \<noteq> [] then raise (InstallationError ''Failed to add Docker's fingerprint.'')
              else ret ()) (\<lambda>_.
     then_do (print ''Successfully added Docker's signing keys.'') (\<lambda>_.
     then_do (print ''Adding Docker apt repository...'') (\<lambda>_.
     then_do (call_comm env (''echo '' @
        ''"deb [arch=$(dpkg --print-architecture) signed-by=/usr/share/keyrings/docker-archive-keyring.gpg] '' @
        ''https://download.docker.com/linux/ubuntu '' @
        ''$(lsb_release -cs) stable"'' @
        '' | '' @
        ''tee /etc/apt/sources.list.d/docker.list > /dev/null'')) (\<lambda>(_, errs).
     then_do (if errs \<noteq> [] then raise (InstallationError ''Failed to add Docker's ppa.'')
              else ret ()) (\<lambda>_.
     then_do (print ''Docker's apt repository successfully added.'') (\<lambda>_.
     then_do (print ''Updating apt repositories...'') (\<lambda>_.
     then_do (call_comm env ''apt update -y'') (\<lambda>(_, errs_raw).
     then_do (if errs_raw \<noteq> [] then
                (let errs = cli_car_apt_warning env errs_raw in
                 if errs \<noteq> [] then raise (InstallationError ''Failed to install Docker apt packages.'')
                 else ret ())
              else ret ()) (\<lambda>_.
     then_do (print ''Apt repositories successfully updated.'') (\<lambda>_.
     then_do (install_docker_loop env [''docker-ce'', ''docker-ce-cli'', ''containerd.io'']) (\<lambda>_.
     then_do (print ''Installation successful.'') (\<lambda>_.
     then_do (print ''Adding user to docker group...'') (\<lambda>_.
     then_do (call_comm env ''usermod -aG docker $USER'') (\<lambda>(_, errs).
     then_do (if errs \<noteq> [] then
                then_do (print errs) (\<lambda>_.
                raise (InstallationError ''Failed to add user to docker group.''))
              else ret ()) (\<lambda>_.
     then_do (print ''Successfully added user to Docker group'') (\<lambda>_.
     ret True))))))))))))))))))\<close>

definition install_fish_shell :: "env \<Rightarrow> bool prog" where
  \<open>install_fish_shell env =
     then_do (print ''Adding Fish shell's apt repository...'') (\<lambda>_.
     then_do (call_comm env ''apt-add-repository ppa:fish-shell/release-3 -y'') (\<lambda>(_, errs).
     then_do (if errs \<noteq> [] then
                then_do (print errs) (\<lambda>_.
                raise (InstallationError ''Failed to add Fish's ppa.''))
              else ret ()) (\<lambda>_.
     then_do (print ''Succesfully added.'') (\<lambda>_.
     then_do (print ''Installing fish...'') (\<lambda>_.
     then_do (call_comm env ''apt update -y && apt install -y fish'') (\<lambda>(_, errs_raw).
     then_do (if errs_raw \<noteq> [] then
                (let errs = cli_car_apt_warning env errs_raw in
                 if errs \<noteq> [] then
                   then_do (print errs) (\<lambda>_.
                   raise (InstallationError ''Failed to install Fish shell.''))
                 else ret ())
              else ret ()) (\<lambda>_.
     then_do (print ''Installation successful.'') (\<lambda>_.
     ret True))))))))\<close>

definition install_google_chrome :: "env \<Rightarrow> bool prog" where
  \<open>install_google_chrome env =
     (let file_name = ''google-chrome-stable_current_amd64.deb'';
          file_url = ''https://dl.google.com/linux/direct/'' @ file_name in
     then_do (print ''Downloading Google Chrome's .deb file...'') (\<lambda>_.
     then_do (call_comm env (''cd '' @ DOWNLOADS_PATH env @ '' && curl -sO '' @ file_url)) (\<lambda>(_, errs).
     then_do (if errs \<noteq> [] then
                then_do (print errs) (\<lambda>_.
                raise (InstallationError ''Failed to download Google Chrome's .deb file.''))
              else ret ()) (\<lambda>_.
     then_do (print ''Download successful.'') (\<lambda>_.
     then_do (print ''Installing Google Chrome from .deb file...'') (\<lambda>_.
     then_do (call_comm env (''cd '' @ DOWNLOADS_PATH env @ '' && apt install -y ./'' @ file_name)) (\<lambda>(_, errs_raw).
     then_do (if errs_raw \<noteq> [] then
                (let errs = cli_car_apt_warning env errs_raw in
                 if errs \<noteq> [] then
                   then_do (print errs) (\<lambda>_.
                   raise (InstallationError ''Failed to install Google Chrome from .deb file.''))
                 else ret ())
              else ret ()) (\<lambda>_.
     then_do (print ''Installation successful.'') (\<lambda>_.
     ret True)))))))))\<close>

text \<open>
  In \<^verbatim>\<open>install_poetry\<close> the statement after \<^verbatim>\<open>print(errs)\<close> is the bare
  expression \<^verbatim>\<open>InstallationError("Poetry was not installed.")\<close>: the exception
  is built and dropped, nothing is raised, and the function goes on.
\<close>

definition install_poetry :: "env \<Rightarrow> bool prog" where
  \<open>install_poetry env =
     (let python_v = (case which env ''python3'' of
                        None \<Rightarrow> ''''
                      | Some path \<Rightarrow> if path \<noteq> [] then ''3'' else '''') in
     then_do (print ''Executing Poetry's installation script...'') (\<lambda>_.
     then_do (call_comm env (''curl -sSL https://raw.githubusercontent.com/python-poetry/poetry/master/get-poetry.py | python'' @
        python_v @ '' -'')) (\<lambda>(_, errs).
     then_do (if errs \<noteq> [] then
                then_do (print errs) (\<lambda>_.
                (let dropped = InstallationError ''Poetry was not installed.'' in ret ()))
              else ret ()) (\<lambda>_.
     then_do (print ''Execution successful.'') (\<lambda>_.
     ret True)))))\<close>

definition install_qbittorrent :: "env \<Rightarrow> bool prog" where
  \<open>install_qbittorrent env =
     then_do (print ''Adding qbittorent's apt repository...'') (\<lambda>_.
     then_do (call_comm env ''add-apt-repository ppa:qbittorrent-team/qbittorrent-stable -y'') (\<lambda>(_, errs).
     then_do (if errs \<noteq> [] then
                then_do (print errs) (\<lambda>_.
                raise (InstallationError ''Failed to add qbittorrent ppa.''))
              else ret ()) (\<lambda>_.
     then_do (print ''Successfully added.'') (\<lambda>_.
     then_do (print ''Installing qbittorrent...'') (\<lambda>_.
     then_do (call_comm env ''apt update -y && apt install qbittorrent -y'') (\<lambda>(_, errs_raw).
     then_do (if errs_raw \<noteq> [] then
                (let errs = cli_car_apt_warning env errs_raw in
                 if errs \<noteq> [] then
                   then_do (print errs) (\<lambda>_.
                   raise (InstallationError ''Failed to install qbittorrent.''))
                 else ret ())
              else ret ()) (\<lambda>_.
     then_do (print ''Installation successful.'') (\<lambda>_.
     ret True))))))))\<close>

text \<open>
  \<^verbatim>\<open>install_not_ppkd_prog\<close>: six \<^verbatim>\<open>try\<close> blocks in a row. The first two print
  their success line in an \<^verbatim>\<open>else\<close> branch, the others after the block; both
  run it exactly when the body did not raise. The sixth block calls
  \<^verbatim>\<open>install_poetry\<close>, as the source does.
\<close>

definition install_not_ppkd_prog :: "env \<Rightarrow> bool prog" where
  \<open>install_not_ppkd_prog env =
     then_do (print ''Installing Brave Browser...'') (\<lambda>_.
     then_do (try_except (install_brave_browser env)
                (raise (InstallationError ''Brave browser was not installed''))) (\<lambda>_.
     then_do (print ''Successfully installed Brave Browser.'') (\<lambda>_.
     then_do (print ''Installing Docker...'') (\<lambda>_.
     then_do (try_except (install_docker env)
                (raise (InstallationError ''Docker was not installed.''))) (\<lambda>_.
     then_do (print ''Successfully installed Docker.'') (\<lambda>_.
     then_do (print ''Installing Fish shell...'') (\<lambda>_.
     then_do (try_except (install_fish_shell env)
                (raise (InstallationError ''Fish shell was not installed.''))) (\<lambda>_.
     then_do (print ''Successfully installed Fish shell.'') (\<lambda>_.
     then_do (print ''Installing Google Chrome...'') (\<lambda>_.
     then_do (try_except (install_google_chrome env)
                (raise (InstallationError ''Google Chrome was not installed.''))) (\<lambda>_.
     then_do (print ''Successfully installed Google Chrome.'') (\<lambda>_.
     then_do (print ''Installing Poetry...'') (\<lambda>_.
     then_do (try_except (install_poetry env)
                (raise (InstallationError ''Poetry was not installed.''))) (\<lambda>_.
     then_do (print ''Successfully installed Poetry.'') (\<lambda>_.
     then_do (print ''Installing qbittorrent...'') (\<lambda>_.
     then_do (try_except (install_poetry env)
                (raise (InstallationError ''qbittorrent was not installed.''))) (\<lambda>_.
     then_do (print ''Successfully installed qbittorrent.'') (\<lambda>_.
     ret True))))))))))))))))))\<close>

definition cleanup :: "env \<Rightarrow> bool prog" where
  "cleanup env =
     then_do (call_comm env (''rm -r '' @ DOWNLOADS_PATH env)) (\<lambda>(_, errs).
     if errs \<noteq> [] then ret False
     else
     then_do (call_comm env ''apt autoclean && apt clean'') (\<lambda>(_, errs_raw).
     if errs_raw \<noteq> [] then
       (let errs = cli_car_apt_warning env errs_raw in
        if errs \<noteq> [] then ret False else ret True)
     else ret True))"

section \<open>Linear scripts\<close>

text \<open>
  The specification describes every operation as a fixed, linear script: run the
  commands in order, check the runner's error output after each, stop at the first real
  failure. The definitions of this section say that in one place, so that each
  operation of the source can be compared with its script. A step is a command, whether
  the warning classifier is applied to its error output, what a real failure does, and
  the message of the enclosing \<^verbatim>\<open>try\<close> block when there is one.
\<close>

datatype on_failure = Raise string | ReturnFalse | GoOn

datatype step =
  Step (step_cmd: string) (step_classified: bool) (step_on_failure: on_failure)
       (step_guard: "string option")

text \<open>
  The error output of a step is a real failure when it is not empty and, where the
  classifier is applied, the classifier does not return the empty text.
\<close>

definition real_failure :: "env \<Rightarrow> bool \<Rightarrow> string \<Rightarrow> bool" where
  "real_failure env classified errs =
     (errs \<noteq> [] \<and> (if classified then cli_car_apt_warning env errs \<noteq> [] else True))"

text \<open>
  Running a script from the commands run so far gives the result and the commands run
  at the end. An exception of the runner leaves through the enclosing \<^verbatim>\<open>try\<close>
  block, if any.
\<close>

fun run_script :: "env \<Rightarrow> step list \<Rightarrow> string list \<Rightarrow> (exn + bool) \<times> string list" where
  "run_script env [] h = (Inr True, h)"
| "run_script env (st # sts) h =
     (case cli_comm env h (step_cmd st) of
        Inl e \<Rightarrow>
          (Inl (case step_guard st of
                  Some m \<Rightarrow> if caught e then InstallationError m else e
                | None \<Rightarrow> e),
           h @ [step_cmd st])
      | Inr (outs, errs) \<Rightarrow>
          if real_failure env (step_classified st) errs then
            (case step_on_failure st of
               Raise m \<Rightarrow> (Inl (InstallationError m), h @ [step_cmd st])
             | ReturnFalse \<Rightarrow> (Inr False, h @ [step_cmd st])
             | GoOn \<Rightarrow> run_script env sts (h @ [step_cmd st]))
          else run_script env sts (h @ [step_cmd st]))"

text \<open>What is observed of a run: its result and the commands handed to the runner.\<close>

definition obs :: "(exn + 'a) \<times> state \<Rightarrow> (exn + 'a) \<times> string list" where
  "obs rs = (fst rs, trace (snd rs))"

definition commands :: "step list \<Rightarrow> string list" where
  "commands sc = map step_cmd sc"

text \<open>
  A step passes, after the commands \<open>h\<close>, when the runner returns and the error output
  is no real failure.
\<close>

definition step_passes :: "env \<Rightarrow> step \<Rightarrow> string list \<Rightarrow> bool" where
  "step_passes env st h =
     (case cli_comm env h (step_cmd st) of
        Inl e \<Rightarrow> False
      | Inr (outs, errs) \<Rightarrow> \<not> real_failure env (step_classified st) errs)"

text \<open>A step inside a \<^verbatim>\<open>try\<close> block whose handler raises \<open>InstallationError m\<close>.\<close>

definition guard :: "string \<Rightarrow> step \<Rightarrow> step" where
  "guard m st =
     Step (step_cmd st) (step_classified st)
       (case step_on_failure st of Raise m' \<Rightarrow> Raise m | ReturnFalse \<Rightarrow> ReturnFalse | GoOn \<Rightarrow> GoOn)
       (Some m)"

definition plain_step :: "step \<Rightarrow> bool" where
  "plain_step st = (step_guard st = None \<and> step_on_failure st \<noteq> ReturnFalse)"

subsection \<open>The script of each operation\<close>

definition pre_install_script :: "env \<Rightarrow> step list" where
  "pre_install_script env =
     [Step (''mkdir '' @ DOWNLOADS_PATH env) False (Raise ''Failed pre-installation procedure.'') None]"

definition apt_step :: "string \<Rightarrow> step" where
  "apt_step pkg =
     Step (''apt install -y '' @ pkg) True (Raise (''Failed to install '' @ pkg @ ''.'')) None"

definition apt_script :: "step list" where
  "apt_script = map apt_step list_apt_pkgs"

definition snap_step :: "string \<Rightarrow> step" where
  "snap_step pkg =
     Step (''snap install '' @ '' '' @ pkg) False (Raise (''Failed to install '' @ pkg @ ''.'')) None"

text \<open>The order in which the snap packages are installed: flagged ones first.\<close>

definition snap_order :: "string list" where
  "snap_order =
     filter (sublist ''--classic'') list_snap_pkgs @
     filter (\<lambda>pkg. \<not> sublist ''--classic'' pkg) list_snap_pkgs"

definition snap_script :: "step list" where
  "snap_script = map snap_step snap_order"

definition brave_script :: "step list" where
  \<open>brave_script =
     [Step (''curl -fsSLo /usr/share/keyrings/brave-browser-archive-keyring.gpg '' @
        ''https://brave-browser-apt-release.s3.brave.com/brave-browser-archive-keyring.gpg'')
        False (Raise ''Failed to add Brave Browser's fingerprint.'') None,
      Step (''echo '' @
        ''"deb [signed-by=/usr/share/keyrings/brave-browser-archive-keyring.gpg arch=amd64] '' @
        ''https://brave-browser-apt-release.s3.brave.com/ stable main"'' @
        '' | '' @
        ''tee /etc/apt/sources.list.d/brave-browser-release.list'')
        False (Raise ''Failed to add Brave Browser's ppa.'') None,
      Step ''apt update -y && apt install -y brave-browser''
        True (Raise ''Failed to install Brave Browser's apt package.'') None]\<close>

definition docker_step :: "string \<Rightarrow> step" where
  "docker_step pkg =
     Step (''apt install -y '' @ pkg) True (Raise (''Failed to install Docker '' @ pkg @ ''.'')) None"

definition docker_script :: "step list" where
  \<open>docker_script =
     Step (''curl -fsSL https://download.docker.com/linux/ubuntu/gpg'' @
        '' | '' @
        ''gpg --dearmor -o /usr/share/keyrings/docker-archive-keyring.gpg'')
        False (Raise ''Failed to add Docker's fingerprint.'') None #
     Step (''echo '' @
        ''"deb [arch=$(dpkg --print-architecture) signed-by=/usr/share/keyrings/docker-archive-keyring.gpg] '' @
        ''https://download.docker.com/linux/ubuntu '' @
        ''$(lsb_release -cs) stable"'' @
        '' | '' @
        ''tee /etc/apt/sources.list.d/docker.list > /dev/null'')
        False (Raise ''Failed to add Docker's ppa.'') None #
     Step ''apt update -y'' True (Raise ''Failed to install Docker apt packages.'') None #
     map docker_step [''docker-ce'', ''docker-ce-cli'', ''containerd.io''] @
     [Step ''usermod -aG docker $USER'' False (Raise ''Failed to add user to docker group.'') None]\<close>

definition fish_script :: "step list" where
  \<open>fish_script =
     [Step ''apt-add-repository ppa:fish-shell/release-3 -y''
        False (Raise ''Failed to add Fish's ppa.'') None,
      Step ''apt update -y && apt install -y fish''
        True (Raise ''Failed to install Fish shell.'') None]\<close>

definition chrome_script :: "env \<Rightarrow> step list" where
  \<open>chrome_script env =
     [Step (''cd '' @ DOWNLOADS_PATH env @ '' && curl -sO '' @
        ''https://dl.google.com/linux/direct/'' @ ''google-chrome-stable_current_amd64.deb'')
        False (Raise ''Failed to download Google Chrome's .deb file.'') None,
      Step (''cd '' @ DOWNLOADS_PATH env @ '' && apt install -y ./'' @
        ''google-chrome-stable_current_amd64.deb'')
        True (Raise ''Failed to install Google Chrome from .deb file.'') None]\<close>

text \<open>The one step of \<^verbatim>\<open>install_poetry\<close>: a real failure raises nothing.\<close>

definition poetry_script :: "env \<Rightarrow> step list" where
  "poetry_script env =
     [Step (''curl -sSL https://raw.githubusercontent.com/python-poetry/poetry/master/get-poetry.py | python'' @
        (case which env ''python3'' of
           None \<Rightarrow> ''''
         | Some path \<Rightarrow> if path \<noteq> [] then ''3'' else '''') @ '' -'')
        False GoOn None]"

definition qbittorrent_script :: "step list" where
  "qbittorrent_script =
     [Step ''add-apt-repository ppa:qbittorrent-team/qbittorrent-stable -y''
        False (Raise ''Failed to add qbittorrent ppa.'') None,
      Step ''apt update -y && apt install qbittorrent -y''
        True (Raise ''Failed to install qbittorrent.'') None]"

definition not_ppkd_script :: "env \<Rightarrow> step list" where
  "not_ppkd_script env =
     map (guard ''Brave browser was not installed'') brave_script @
     map (guard ''Docker was not installed.'') docker_script @
     map (guard ''Fish shell was not installed.'') fish_script @
     map (guard ''Google Chrome was not installed.'') (chrome_script env) @
     map (guard ''Poetry was not installed.'') (poetry_script env) @
     map (guard ''qbittorrent was not installed.'') (poetry_script env) @ []"

definition cleanup_script :: "env \<Rightarrow> step list" where
  "cleanup_script env =
     [Step (''rm -r '' @ DOWNLOADS_PATH env) False ReturnFalse None,
      Step ''apt autoclean && apt clean'' True ReturnFalse None]"

subsection \<open>Commands and names used in the statements\<close>

definition apt_cmds :: "string list" where
  "apt_cmds = map (\<lambda>pkg. ''apt install -y '' @ pkg) list_apt_pkgs"

definition snap_cmds :: "string list" where
  "snap_cmds = map (\<lambda>pkg. ''snap install '' @ '' '' @ pkg) snap_order"

definition not_ppkd_cmds :: "env \<Rightarrow> string list" where
  "not_ppkd_cmds env = commands (not_ppkd_script env)"

text \<open>
  The operations that run commands themselves and raise or return on a real failure;
  \<^verbatim>\<open>install_poetry\<close> and \<^verbatim>\<open>install_not_ppkd_prog\<close> are treated apart.
\<close>

datatype operation =
  PreInstall | InstallAptPkgs | InstallSnapPkgs | InstallBraveBrowser | InstallDocker
| InstallFishShell | InstallGoogleChrome | InstallQbittorrent | Cleanup

fun run_operation :: "operation \<Rightarrow> env \<Rightarrow> bool prog" where
  "run_operation PreInstall env = pre_install env"
| "run_operation InstallAptPkgs env = install_apt_pkgs env"
| "run_operation InstallSnapPkgs env = install_snap_pkgs env"
| "run_operation InstallBraveBrowser env = install_brave_browser env"
| "run_operation InstallDocker env = install_docker env"
| "run_operation InstallFishShell env = install_fish_shell env"
| "run_operation InstallGoogleChrome env = install_google_chrome env"
| "run_operation InstallQbittorrent env = install_qbittorrent env"
| "run_operation Cleanup env = cleanup env"

fun script_of :: "operation \<Rightarrow> env \<Rightarrow> step list" where
  "script_of PreInstall env = pre_install_script env"
| "script_of InstallAptPkgs env = apt_script"
| "script_of InstallSnapPkgs env = snap_script"
| "script_of InstallBraveBrowser env = brave_script"
| "script_of InstallDocker env = docker_script"
| "script_of InstallFishShell env = fish_script"
| "script_of InstallGoogleChrome env = chrome_script env"
| "script_of InstallQbittorrent env = qbittorrent_script"
| "script_of Cleanup env = cleanup_script env"

text \<open>
  The name that the message raised at step \<open>k\<close> of an operation carries: the package
  for the two package loops, the program otherwise (in lower case in the message of the
  last step of \<^verbatim>\<open>install_docker\<close>).
\<close>

fun named_in_message :: "operation \<Rightarrow> nat \<Rightarrow> string" where
  "named_in_message PreInstall k = ''pre-installation''"
| "named_in_message InstallAptPkgs k = list_apt_pkgs ! k"
| "named_in_message InstallSnapPkgs k = snap_order ! k"
| "named_in_message InstallBraveBrowser k = ''Brave Browser''"
| "named_in_message InstallDocker k = (if k = 6 then ''docker'' else ''Docker'')"
| "named_in_message InstallFishShell k = ''Fish''"
| "named_in_message InstallGoogleChrome k = ''Google Chrome''"
| "named_in_message InstallQbittorrent k = ''qbittorrent''"
| "named_in_message Cleanup k = ''''"

subsection \<open>Example environments\<close>

text \<open>
  A machine on which every command returns, with nothing on stdout and on stderr the
  text \<open>errs_of cmd\<close>; the classifier is the one of the specification with the one
  allow-list entry the specification names.
\<close>

definition example_env :: "(string \<Rightarrow> string) \<Rightarrow> env" where
  "example_env errs_of =
     \<lparr>CURRENT_PATH = ''/home/user/pc-setup'',
      which = (\<lambda>prog. if prog = ''python3'' then Some ''/usr/bin/python3'' else None),
      cli_comm = (\<lambda>h cmd. Inr ([], errs_of cmd)),
      cli_car_apt_warning = car_apt_warning [''dpkg-preconfigure: unable to re-open stdin'']\<rparr>"

definition init_state :: state where
  "init_state = \<lparr>trace = [], printed = []\<rparr>"

section \<open>The warning classifier and the command runner\<close>

lemma lines_of_no_newline: "l \<in> set (lines_of t) \<Longrightarrow> newline \<notin> set l"
  by (induction t arbitrary: l) (auto split: if_splits list.splits)

lemma lines_of_join:
  "concat (map (\<lambda>l. l @ [newline]) (lines_of t)) =
     (if t = [] \<or> last t = newline then t else t @ [newline])"
  by (induction t) (auto split: list.splits if_splits)

lemma lines_of_Nil_iff: "lines_of t = [] \<longleftrightarrow> t = []"
  by (cases t) (auto split: list.splits)

text \<open>
  Claim C1. When every line of the stderr text contains some text of the benign
  allow-list, the classifier returns the empty text: not an error.
\<close>

theorem car_apt_warning_all_benign:
  "\<forall>l \<in> set (lines_of errs). \<exists>b \<in> set allow. sublist b l \<Longrightarrow>
   car_apt_warning allow errs = []"
  by (simp add: car_apt_warning_def benign_line_def list_all_iff list_ex_iff)

theorem car_apt_warning_all_benign_witness:
  "car_apt_warning [''dpkg-preconfigure: unable to re-open stdin'']
     ''dpkg-preconfigure: unable to re-open stdin'' = []"
  using car_apt_warning_all_benign
    [of "''dpkg-preconfigure: unable to re-open stdin''"
        "[''dpkg-preconfigure: unable to re-open stdin'']"]
  by (simp add: newline_def)

text \<open>
  Claim C2. When some line of the stderr text contains no text of the benign
  allow-list, the classifier returns the text it was given, unchanged, and that text is
  not empty: a real failure for the caller.
\<close>

theorem car_apt_warning_real_failure:
  "\<exists>l \<in> set (lines_of errs). \<forall>b \<in> set allow. \<not> sublist b l \<Longrightarrow>
   car_apt_warning allow errs = errs \<and> errs \<noteq> []"
  by (auto simp add: car_apt_warning_def benign_line_def list_all_iff list_ex_iff)

theorem car_apt_warning_real_failure_witness:
  "car_apt_warning [''dpkg-preconfigure: unable to re-open stdin'']
     (''N: Ign:1 ... '' @ [newline] @ ''E: Unable to locate package foo'') =
   ''N: Ign:1 ... '' @ [newline] @ ''E: Unable to locate package foo''"
  using car_apt_warning_real_failure
    [of "''N: Ign:1 ... '' @ [newline] @ ''E: Unable to locate package foo''"
        "[''dpkg-preconfigure: unable to re-open stdin'']"]
  by (simp add: newline_def sublist_code)

text \<open>
  Claim C3. For every command and timeout: when the process of the command completes
  within the timeout, the runner returns its captured (stdout, stderr), whatever the
  exit code; when it completes later or never, the runner fails with TimeoutError.
\<close>

theorem comm_returns_or_times_out:
  "(shell cmd = Completes t outs errs code \<and> t \<le> timeout \<longrightarrow>
      comm shell cmd timeout = Inr (outs, errs)) \<and>
   (shell cmd = Hangs \<or> (shell cmd = Completes t outs errs code \<and> timeout < t) \<longrightarrow>
      comm shell cmd timeout = Inl TimeoutError)"
  by (auto simp add: comm_def)

theorem comm_returns_or_times_out_witness:
  "comm (\<lambda>c. if c = ''false'' then Completes 1 ''o'' ''e'' 1 else Hangs) ''false'' 5 = Inr (''o'', ''e'') \<and>
   comm (\<lambda>c. if c = ''false'' then Completes 1 ''o'' ''e'' 1 else Hangs) ''cat'' 5 = Inl TimeoutError \<and>
   comm (\<lambda>c. Completes 9 ''o'' ''e'' 0) ''ls'' 5 = Inl TimeoutError"
  using comm_returns_or_times_out
    [of "\<lambda>c. if c = ''false'' then Completes 1 ''o'' ''e'' 1 else Hangs" "''false''" 1 "''o''" "''e''" 1 5]
    comm_returns_or_times_out
    [of "\<lambda>c. if c = ''false'' then Completes 1 ''o'' ''e'' 1 else Hangs" "''cat''" 1 "''o''" "''e''" 1 5]
    comm_returns_or_times_out
    [of "\<lambda>c. Completes 9 ''o'' ''e'' 0" "''ls''" 9 "''o''" "''e''" 0 5]
  by simp

section \<open>Each operation runs its script\<close>

lemma then_do_assoc: "then_do (then_do m f) k = then_do m (\<lambda>x. then_do (f x) k)"
  by (rule ext) (simp add: then_do_def split: prod.split sum.split)

lemma then_do_ret: "then_do (ret x) k = k x"
  by (rule ext) (simp add: then_do_def ret_def)

lemma obs_parts: "fst (obs rs) = fst rs" "snd (obs rs) = trace (snd rs)"
  by (simp_all add: obs_def)

lemma obs_ret: "obs (ret True s) = run_script env [] (trace s)"
  by (simp add: obs_def ret_def)

lemma obs_print:
  assumes "\<And>s. obs (k () s) = run_script env sc (trace s)"
  shows "obs (then_do (print x) k s) = run_script env sc (trace s)"
  using assms [of "s\<lparr>printed := printed s @ [x]\<rparr>"]
  by (simp add: then_do_def print_def)

lemma obs_raw:
  assumes "\<And>s. obs (k () s) = run_script env sc (trace s)"
  shows "obs (then_do (call_comm env c) (\<lambda>(_, errs).
           then_do (if errs \<noteq> [] then raise (InstallationError m) else ret ()) k) s) =
         run_script env (Step c False (Raise m) None # sc) (trace s)"
  using assms [of "s\<lparr>trace := trace s @ [c]\<rparr>"]
  by (simp add: then_do_def call_comm_def raise_def ret_def real_failure_def obs_def
      split: sum.split prod.split)

lemma obs_raw_print:
  assumes "\<And>s. obs (k () s) = run_script env sc (trace s)"
  shows "obs (then_do (call_comm env c) (\<lambda>(_, errs).
           then_do (if errs \<noteq> [] then then_do (print errs) (\<lambda>_. raise (InstallationError m))
                    else ret ()) k) s) =
         run_script env (Step c False (Raise m) None # sc) (trace s)"
  using assms [of "s\<lparr>trace := trace s @ [c]\<rparr>"]
  by (simp add: then_do_def call_comm_def raise_def ret_def print_def real_failure_def obs_def
      split: sum.split prod.split)

lemma obs_apt:
  assumes "\<And>s. obs (k () s) = run_script env sc (trace s)"
  shows "obs (then_do (call_comm env c) (\<lambda>(_, errs_raw).
           then_do (if errs_raw \<noteq> [] then
                      (if cli_car_apt_warning env errs_raw \<noteq> [] then raise (InstallationError m)
                       else ret ())
                    else ret ()) k) s) =
         run_script env (Step c True (Raise m) None # sc) (trace s)"
  using assms [of "s\<lparr>trace := trace s @ [c]\<rparr>"]
  by (simp add: then_do_def call_comm_def raise_def ret_def real_failure_def obs_def
      split: sum.split prod.split)

lemma obs_apt_print:
  assumes "\<And>s. obs (k () s) = run_script env sc (trace s)"
  shows "obs (then_do (call_comm env c) (\<lambda>(_, errs_raw).
           then_do (if errs_raw \<noteq> [] then
                      (if cli_car_apt_warning env errs_raw \<noteq> [] then
                         then_do (print (cli_car_apt_warning env errs_raw))
                           (\<lambda>_. raise (InstallationError m))
                       else ret ())
                    else ret ()) k) s) =
         run_script env (Step c True (Raise m) None # sc) (trace s)"
  using assms [of "s\<lparr>trace := trace s @ [c]\<rparr>"]
  by (simp add: then_do_def call_comm_def raise_def ret_def print_def real_failure_def obs_def
      split: sum.split prod.split)

lemma obs_dropped:
  assumes "\<And>s. obs (k () s) = run_script env sc (trace s)"
  shows "obs (then_do (call_comm env c) (\<lambda>(_, errs).
           then_do (if errs \<noteq> [] then then_do (print errs) (\<lambda>_. ret ()) else ret ()) k) s) =
         run_script env (Step c False GoOn None # sc) (trace s)"
proof (cases "cli_comm env (trace s) c")
  case (Inl e)
  then show ?thesis
    by (simp add: then_do_def call_comm_def obs_def)
next
  case (Inr p)
  obtain outs errs where p: "p = (outs, errs)"
    by (cases p)
  show ?thesis
    using assms [of "s\<lparr>trace := trace s @ [c]\<rparr>"]
      assms [of "s\<lparr>trace := trace s @ [c], printed := printed s @ [errs]\<rparr>"] Inr p
    by (simp add: then_do_def call_comm_def ret_def print_def real_failure_def obs_def)
qed

lemmas obs_rules = obs_ret obs_print obs_raw obs_raw_print obs_apt obs_apt_print obs_dropped

lemma pre_install_runs_script:
  "obs (pre_install env s) = run_script env (pre_install_script env) (trace s)"
  unfolding pre_install_def pre_install_script_def
  by (intro obs_rules)

lemma apt_loop_script:
  assumes "\<And>s. obs (k () s) = run_script env sc (trace s)"
  shows "obs (then_do (install_apt_pkgs_loop env pkgs) k s) =
         run_script env (map apt_step pkgs @ sc) (trace s)"
proof (induction pkgs arbitrary: s)
  case Nil
  then show ?case by (simp add: then_do_ret assms)
next
  case (Cons pkg pkgs)
  have l: "then_do (install_apt_pkgs_loop env (pkg # pkgs)) k =
      then_do (print (''Installing '' @ pkg @ ''...'')) (\<lambda>_.
      then_do (call_comm env (''apt install -y '' @ pkg)) (\<lambda>(_, errs_raw).
      then_do (if errs_raw \<noteq> [] then
                 (if cli_car_apt_warning env errs_raw \<noteq> [] then
                    raise (InstallationError (''Failed to install '' @ pkg @ ''.''))
                  else ret ())
               else ret ()) (\<lambda>_.
      then_do (install_apt_pkgs_loop env pkgs) k)))"
    unfolding install_apt_pkgs_loop.simps then_do_assoc Let_def split_def by (rule refl)
  have r: "map apt_step (pkg # pkgs) @ sc =
      Step (''apt install -y '' @ pkg) True (Raise (''Failed to install '' @ pkg @ ''.'')) None #
      (map apt_step pkgs @ sc)"
    by (simp add: apt_step_def)
  show ?case
    unfolding l r by (intro obs_print obs_apt Cons.IH)
qed

lemma install_apt_pkgs_script:
  "obs (install_apt_pkgs env s) = run_script env apt_script (trace s)"
proof -
  have "obs (install_apt_pkgs env s) = run_script env (map apt_step list_apt_pkgs @ []) (trace s)"
    unfolding install_apt_pkgs_def
    by (intro obs_print apt_loop_script obs_ret)
  then show ?thesis by (simp add: apt_script_def)
qed

lemma snap_loop_script:
  assumes "\<And>s. obs (k () s) = run_script env sc (trace s)"
  shows "obs (then_do (install_snap_pkgs_loop env pkgs) k s) =
         run_script env (map snap_step pkgs @ sc) (trace s)"
proof (induction pkgs arbitrary: s)
  case Nil
  then show ?case by (simp add: then_do_ret assms)
next
  case (Cons pkg pkgs)
  have l: "then_do (install_snap_pkgs_loop env (pkg # pkgs)) k =
      then_do (print (''Installing '' @ pkg @ ''...'')) (\<lambda>_.
      then_do (call_comm env (''snap install '' @ '' '' @ pkg)) (\<lambda>(_, errs).
      then_do (if errs \<noteq> [] then raise (InstallationError (''Failed to install '' @ pkg @ ''.''))
               else ret ()) (\<lambda>_.
      then_do (install_snap_pkgs_loop env pkgs) k)))"
    unfolding install_snap_pkgs_loop.simps then_do_assoc split_def by (rule refl)
  have r: "map snap_step (pkg # pkgs) @ sc =
      Step (''snap install '' @ '' '' @ pkg) False (Raise (''Failed to install '' @ pkg @ ''.'')) None #
      (map snap_step pkgs @ sc)"
    by (simp add: snap_step_def)
  show ?case
    unfolding l r by (intro obs_print obs_raw Cons.IH)
qed

lemma separate_flagged_filter:
  "separate_flagged pkgs (unflg, flg) =
     (unflg @ filter (\<lambda>pkg. \<not> sublist ''--classic'' pkg) pkgs,
      flg @ filter (sublist ''--classic'') pkgs)"
  by (induction pkgs arbitrary: unflg flg) simp_all

lemma install_snap_pkgs_script:
  "obs (install_snap_pkgs env s) = run_script env snap_script (trace s)"
proof -
  have "obs (install_snap_pkgs env s) =
        run_script env
          (map snap_step (filter (sublist ''--classic'') list_snap_pkgs) @
           map snap_step (filter (\<lambda>pkg. \<not> sublist ''--classic'' pkg) list_snap_pkgs) @ [])
          (trace s)"
    unfolding install_snap_pkgs_def separate_flagged_filter prod.case append_Nil
    by (intro obs_print snap_loop_script obs_ret)
  then show ?thesis by (simp add: snap_script_def snap_order_def)
qed

lemma install_brave_browser_script:
  "obs (install_brave_browser env s) = run_script env brave_script (trace s)"
  unfolding install_brave_browser_def brave_script_def Let_def
  by (intro obs_rules)

lemma docker_loop_script:
  assumes "\<And>s. obs (k () s) = run_script env sc (trace s)"
  shows "obs (then_do (install_docker_loop env pkgs) k s) =
         run_script env (map docker_step pkgs @ sc) (trace s)"
proof (induction pkgs arbitrary: s)
  case Nil
  then show ?case by (simp add: then_do_ret assms)
next
  case (Cons pkg pkgs)
  have l: "then_do (install_docker_loop env (pkg # pkgs)) k =
      then_do (print (''Installing '' @ pkg @ ''...'')) (\<lambda>_.
      then_do (call_comm env (''apt install -y '' @ pkg)) (\<lambda>(_, errs_raw).
      then_do (if errs_raw \<noteq> [] then
                 (if cli_car_apt_warning env errs_raw \<noteq> [] then
                    raise (InstallationError (''Failed to install Docker '' @ pkg @ ''.''))
                  else ret ())
               else ret ()) (\<lambda>_.
      then_do (install_docker_loop env pkgs) k)))"
    unfolding install_docker_loop.simps then_do_assoc Let_def split_def by (rule refl)
  have r: "map docker_step (pkg # pkgs) @ sc =
      Step (''apt install -y '' @ pkg) True (Raise (''Failed to install Docker '' @ pkg @ ''.'')) None #
      (map docker_step pkgs @ sc)"
    by (simp add: docker_step_def)
  show ?case
    unfolding l r by (intro obs_print obs_apt Cons.IH)
qed

lemma install_docker_script:
  "obs (install_docker env s) = run_script env docker_script (trace s)"
  unfolding install_docker_def docker_script_def Let_def
  by (intro obs_rules docker_loop_script)

lemma install_fish_shell_script:
  "obs (install_fish_shell env s) = run_script env fish_script (trace s)"
  unfolding install_fish_shell_def fish_script_def Let_def
  by (intro obs_rules)

lemma install_google_chrome_script:
  "obs (install_google_chrome env s) = run_script env (chrome_script env) (trace s)"
  unfolding install_google_chrome_def chrome_script_def Let_def
  by (intro obs_rules)

lemma install_poetry_script:
  "obs (install_poetry env s) = run_script env (poetry_script env) (trace s)"
  unfolding install_poetry_def poetry_script_def Let_def
  by (intro obs_rules)

lemma install_qbittorrent_script:
  "obs (install_qbittorrent env s) = run_script env qbittorrent_script (trace s)"
  unfolding install_qbittorrent_def qbittorrent_script_def Let_def
  by (intro obs_rules)

lemma cleanup_runs_script:
  "obs (cleanup env s) = run_script env (cleanup_script env) (trace s)"
  by (simp add: cleanup_def cleanup_script_def then_do_def call_comm_def ret_def obs_def
      real_failure_def Let_def split: sum.split prod.split)

lemma guard_sel:
  "step_cmd (guard m st) = step_cmd st"
  "step_classified (guard m st) = step_classified st"
  "step_guard (guard m st) = Some m"
  "step_on_failure (guard m st) =
     (case step_on_failure st of Raise m' \<Rightarrow> Raise m | ReturnFalse \<Rightarrow> ReturnFalse | GoOn \<Rightarrow> GoOn)"
  by (simp_all add: guard_def)

lemma run_script_guard:
  assumes "list_all plain_step sc"
  shows "run_script env (map (guard m) sc @ rest) h =
         (case run_script env sc h of
            (Inl e, h') \<Rightarrow> (Inl (if caught e then InstallationError m else e), h')
          | (Inr b, h') \<Rightarrow> run_script env rest h')"
  using assms
proof (induction sc arbitrary: h)
  case Nil
  then show ?case by simp
next
  case (Cons st sc)
  then have IH: "\<And>h. run_script env (map (guard m) sc @ rest) h =
         (case run_script env sc h of
            (Inl e, h') \<Rightarrow> (Inl (if caught e then InstallationError m else e), h')
          | (Inr b, h') \<Rightarrow> run_script env rest h')"
    by simp
  from Cons.prems have st: "step_guard st = None" "step_on_failure st \<noteq> ReturnFalse"
    by (simp_all add: plain_step_def)
  show ?case
  proof (cases "cli_comm env h (step_cmd st)")
    case (Inl e)
    then show ?thesis using st by (simp add: guard_sel)
  next
    case (Inr p)
    then show ?thesis using st IH [of "h @ [step_cmd st]"]
      by (cases p; cases "step_on_failure st") (simp_all add: guard_sel)
  qed
qed

lemma obs_try:
  assumes body: "\<And>s. obs (body s) = run_script env sc (trace s)"
    and plain: "list_all plain_step sc"
    and k: "\<And>x s. obs (k x s) = run_script env rest (trace s)"
  shows "obs (then_do (try_except body (raise (InstallationError m))) k s) =
         run_script env (map (guard m) sc @ rest) (trace s)"
proof (cases "body s")
  case (Pair r s')
  with body [of s] have b: "run_script env sc (trace s) = (r, trace s')"
    by (simp add: obs_def)
  show ?thesis
  proof (cases r)
    case (Inl e)
    with Pair b show ?thesis
      by (simp add: run_script_guard [OF plain] then_do_def try_except_def raise_def obs_def)
  next
    case (Inr x)
    with Pair b k [of x s'] show ?thesis
      by (simp add: run_script_guard [OF plain] then_do_def try_except_def obs_def)
  qed
qed

lemma plain_scripts:
  "list_all plain_step brave_script" "list_all plain_step docker_script"
  "list_all plain_step fish_script" "list_all plain_step (chrome_script env)"
  "list_all plain_step (poetry_script env)"
  by (simp_all add: plain_step_def brave_script_def docker_script_def docker_step_def
      fish_script_def chrome_script_def poetry_script_def)

lemma install_not_ppkd_prog_script:
  "obs (install_not_ppkd_prog env s) = run_script env (not_ppkd_script env) (trace s)"
  unfolding install_not_ppkd_prog_def not_ppkd_script_def
  by (intro obs_print obs_try obs_ret install_brave_browser_script install_docker_script
      install_fish_shell_script install_google_chrome_script install_poetry_script plain_scripts)

section \<open>What a script does\<close>

lemma run_script_skip:
  assumes "k \<le> length sc"
    and "\<forall>i<k. step_passes env (sc ! i) (h @ take i (commands sc))"
  shows "run_script env sc h = run_script env (drop k sc) (h @ take k (commands sc))"
  using assms
proof (induction sc arbitrary: h k)
  case Nil
  then show ?case by (simp add: commands_def)
next
  case (Cons st sc)
  show ?case
  proof (cases k)
    case 0
    then show ?thesis by simp
  next
    case (Suc j)
    with Cons.prems have j: "j \<le> length sc" by simp
    from Cons.prems Suc have p0: "step_passes env st h"
      by (auto simp add: commands_def dest: spec [of _ 0])
    have pj: "\<forall>i<j. step_passes env (sc ! i) ((h @ [step_cmd st]) @ take i (commands sc))"
    proof (intro allI impI)
      fix i assume "i < j"
      with Cons.prems(2) Suc have "step_passes env ((st # sc) ! Suc i) (h @ take (Suc i) (commands (st # sc)))"
        by auto
      then show "step_passes env (sc ! i) ((h @ [step_cmd st]) @ take i (commands sc))"
        by (simp add: commands_def)
    qed
    from p0 have "run_script env (st # sc) h = run_script env sc (h @ [step_cmd st])"
      by (auto simp add: step_passes_def split: sum.splits)
    also have "\<dots> = run_script env (drop j sc) ((h @ [step_cmd st]) @ take j (commands sc))"
      by (rule Cons.IH [OF j pj])
    finally show ?thesis using Suc by (simp add: commands_def)
  qed
qed

lemma run_script_trace:
  "\<exists>j\<le>length sc. snd (run_script env sc h) = h @ take j (commands sc) \<and>
     (fst (run_script env sc h) = Inr True \<longrightarrow> j = length sc)"
proof (induction sc arbitrary: h)
  case Nil
  then show ?case by (simp add: commands_def)
next
  case (Cons st sc)
  from Cons.IH [of "h @ [step_cmd st]"] obtain j where j: "j \<le> length sc"
    "snd (run_script env sc (h @ [step_cmd st])) = (h @ [step_cmd st]) @ take j (commands sc)"
    "fst (run_script env sc (h @ [step_cmd st])) = Inr True \<longrightarrow> j = length sc"
    by blast
  have stop: "\<exists>j\<le>length (st # sc). h @ [step_cmd st] = h @ take j (commands (st # sc)) \<and> j = Suc 0"
    by (rule exI [of _ "Suc 0"]) (simp add: commands_def)
  have go: "\<exists>j'\<le>length (st # sc).
      snd (run_script env sc (h @ [step_cmd st])) = h @ take j' (commands (st # sc)) \<and>
      (fst (run_script env sc (h @ [step_cmd st])) = Inr True \<longrightarrow> j' = length (st # sc))"
    using j by (intro exI [of _ "Suc j"]) (simp add: commands_def)
  show ?case
  proof (cases "cli_comm env h (step_cmd st)")
    case (Inl e)
    then show ?thesis using stop by auto
  next
    case (Inr p)
    obtain outs errs where p: "p = (outs, errs)" by (cases p)
    show ?thesis
    proof (cases "real_failure env (step_classified st) errs")
      case True
      then show ?thesis using Inr p stop go
        by (cases "step_on_failure st") auto
    next
      case False
      then show ?thesis using Inr p go by simp
    qed
  qed
qed

lemma run_script_head:
  "prefix (h @ [step_cmd st]) (snd (run_script env (st # sc) h))"
proof -
  from run_script_trace [of sc env "h @ [step_cmd st]"]
  have "prefix (h @ [step_cmd st]) (snd (run_script env sc (h @ [step_cmd st])))"
    by (auto simp add: prefix_def)
  then show ?thesis
    by (auto split: sum.split on_failure.split)
qed

text \<open>
  The step \<open>k\<close> of a script, all steps before it having passed: what the script does
  according to the outcome of that step.
\<close>

lemma run_script_at:
  assumes k: "k < length sc"
    and before: "\<forall>i<k. step_passes env (sc ! i) (h @ take i (commands sc))"
  shows "run_script env sc h =
         run_script env (sc ! k # drop (Suc k) sc) (h @ take k (commands sc))"
  using run_script_skip [of k sc env h] k before
  by (simp add: Cons_nth_drop_Suc)

lemma run_script_real_failure:
  assumes k: "k < length sc"
    and before: "\<forall>i<k. step_passes env (sc ! i) (h @ take i (commands sc))"
    and at: "cli_comm env (h @ take k (commands sc)) (commands sc ! k) = Inr (outs, errs)"
    and real: "real_failure env (step_classified (sc ! k)) errs"
  shows "run_script env sc h =
         (case step_on_failure (sc ! k) of
            Raise m \<Rightarrow> (Inl (InstallationError m), h @ take (Suc k) (commands sc))
          | ReturnFalse \<Rightarrow> (Inr False, h @ take (Suc k) (commands sc))
          | GoOn \<Rightarrow> run_script env (drop (Suc k) sc) (h @ take (Suc k) (commands sc)))"
proof -
  have c: "commands sc ! k = step_cmd (sc ! k)"
    using k by (simp add: commands_def)
  have t: "take (Suc k) (commands sc) = take k (commands sc) @ [step_cmd (sc ! k)]"
    using k by (simp add: commands_def take_Suc_conv_app_nth)
  show ?thesis
    unfolding run_script_at [OF k before] t
    using at real c by (simp split: on_failure.split)
qed

lemma run_script_exception:
  assumes k: "k < length sc"
    and before: "\<forall>i<k. step_passes env (sc ! i) (h @ take i (commands sc))"
    and at: "cli_comm env (h @ take k (commands sc)) (commands sc ! k) = Inl e"
  shows "run_script env sc h =
         (Inl (case step_guard (sc ! k) of
                 Some m \<Rightarrow> if caught e then InstallationError m else e
               | None \<Rightarrow> e),
          h @ take (Suc k) (commands sc))"
proof -
  have c: "commands sc ! k = step_cmd (sc ! k)"
    using k by (simp add: commands_def)
  have t: "take (Suc k) (commands sc) = take k (commands sc) @ [step_cmd (sc ! k)]"
    using k by (simp add: commands_def take_Suc_conv_app_nth)
  show ?thesis
    unfolding run_script_at [OF k before] t
    using at c by simp
qed

lemma run_script_all_pass:
  assumes "\<forall>i<length sc. step_passes env (sc ! i) (h @ take i (commands sc))"
  shows "run_script env sc h = (Inr True, h @ commands sc)"
  using run_script_skip [of "length sc" sc env h] assms
  by (simp add: commands_def)

lemma run_script_goes_on:
  assumes k: "Suc k < length sc"
    and before: "\<forall>i<Suc k. step_passes env (sc ! i) (h @ take i (commands sc))"
  shows "prefix (h @ take (Suc (Suc k)) (commands sc)) (snd (run_script env sc h))"
proof -
  have t: "take (Suc (Suc k)) (commands sc) = take (Suc k) (commands sc) @ [step_cmd (sc ! Suc k)]"
    using k by (simp add: commands_def take_Suc_conv_app_nth [of "Suc k"])
  show ?thesis
    unfolding run_script_at [OF k before] t
    using run_script_head [of "h @ take (Suc k) (commands sc)" "sc ! Suc k" env "drop (Suc (Suc k)) sc"]
    by simp
qed

lemma run_script_passed:
  assumes k: "k < length sc"
    and before: "\<forall>i<k. step_passes env (sc ! i) (h @ take i (commands sc))"
    and at: "step_passes env (sc ! k) (h @ take k (commands sc))"
  shows "if Suc k = length sc then run_script env sc h = (Inr True, h @ commands sc)
         else prefix (h @ take (Suc (Suc k)) (commands sc)) (snd (run_script env sc h))"
proof -
  from before at have all: "\<forall>i<Suc k. step_passes env (sc ! i) (h @ take i (commands sc))"
    by (auto simp add: less_Suc_eq)
  show ?thesis
  proof (cases "Suc k = length sc")
    case True
    with all run_script_all_pass [of sc env h] show ?thesis by simp
  next
    case False
    with k have "Suc k < length sc" by simp
    from run_script_goes_on [OF this all] False show ?thesis by simp
  qed
qed

lemma run_script_passed_no_raise:
  assumes k: "k < length sc"
    and before: "\<forall>i<k. step_passes env (sc ! i) (h @ take i (commands sc))"
    and at: "step_passes env (sc ! k) (h @ take k (commands sc))"
  shows "run_script env sc h \<noteq> (Inl e, h @ take (Suc k) (commands sc))"
proof (cases "Suc k = length sc")
  case True
  with run_script_passed [OF assms] show ?thesis by simp
next
  case False
  with run_script_passed [OF assms]
  have p: "prefix (h @ take (Suc (Suc k)) (commands sc)) (snd (run_script env sc h))"
    by simp
  from False k have "length (take (Suc (Suc k)) (commands sc)) = Suc (Suc k)"
    by (simp add: commands_def)
  moreover from k have "length (take (Suc k) (commands sc)) = Suc k"
    by (simp add: commands_def)
  ultimately have "length (h @ take (Suc k) (commands sc)) < length (h @ take (Suc (Suc k)) (commands sc))"
    by simp
  with prefix_length_le [OF p] have "snd (run_script env sc h) \<noteq> h @ take (Suc k) (commands sc)"
    by auto
  then show ?thesis by auto
qed

section \<open>The claims about the installers\<close>

lemmas run_defs = then_do_def ret_def raise_def print_def call_comm_def try_except_def

lemma example_env_sel:
  "CURRENT_PATH (example_env f) = ''/home/user/pc-setup''"
  "which (example_env f) ''python3'' = Some ''/usr/bin/python3''"
  "cli_comm (example_env f) h cmd = Inr ([], f cmd)"
  "cli_car_apt_warning (example_env f) = car_apt_warning [''dpkg-preconfigure: unable to re-open stdin'']"
  by (simp_all add: example_env_def)

text \<open>
  Claim C4 fails on \<^verbatim>\<open>install_poetry\<close>. On a machine where the installation
  script of Poetry writes an error on stderr, which is a real failure of that step,
  \<^verbatim>\<open>install_poetry\<close> raises nothing: it prints the error, then
  \<^verbatim>\<open>Execution successful.\<close>, and returns True.
\<close>

theorem install_poetry_raises_nothing:
  \<open>cli_comm (example_env (\<lambda>cmd. ''curl: (6) Could not resolve host'')) []
     ''curl -sSL https://raw.githubusercontent.com/python-poetry/poetry/master/get-poetry.py | python3 -'' =
     Inr ([], ''curl: (6) Could not resolve host'') \<and>
   install_poetry (example_env (\<lambda>cmd. ''curl: (6) Could not resolve host'')) init_state =
     (Inr True,
      \<lparr>trace = [''curl -sSL https://raw.githubusercontent.com/python-poetry/poetry/master/get-poetry.py | python3 -''],
       printed = [''Executing Poetry's installation script...'',
                  ''curl: (6) Could not resolve host'',
                  ''Execution successful.'']\<rparr>)\<close>
  by (simp add: install_poetry_def example_env_sel init_state_def run_defs)

lemma operation_script:
  "obs (run_operation op env s) = run_script env (script_of op env) (trace s)"
  by (cases op)
    (simp_all add: pre_install_runs_script install_apt_pkgs_script install_snap_pkgs_script
      install_brave_browser_script install_docker_script install_fish_shell_script
      install_google_chrome_script install_qbittorrent_script cleanup_runs_script)

lemma sublist_middle: "sublist xs (ps @ xs @ ss)"
  by (auto simp add: sublist_def)

lemma nth_cases3: "k < 3 \<Longrightarrow> k = 0 \<or> k = 1 \<or> k = (2::nat)"
  by arith

lemma nth_cases2: "k < 2 \<Longrightarrow> k = 0 \<or> k = (1::nat)"
  by arith

lemma nth_cases7: "k < 7 \<Longrightarrow> k = 0 \<or> k = 1 \<or> k = 2 \<or> k = 3 \<or> k = 4 \<or> k = 5 \<or> k = (6::nat)"
  by arith

lemma apt_step_message: "\<exists>m. step_on_failure (apt_step pkg) = Raise m \<and> sublist pkg m"
  unfolding apt_step_def step.sel
  by (rule exI [of _ "''Failed to install '' @ pkg @ ''.''"]) (simp only: simp_thms sublist_middle)

lemma snap_step_message: "\<exists>m. step_on_failure (snap_step pkg) = Raise m \<and> sublist pkg m"
  unfolding snap_step_def step.sel
  by (rule exI [of _ "''Failed to install '' @ pkg @ ''.''"]) (simp only: simp_thms sublist_middle)

lemma script_messages:
  assumes "k < length (script_of op env)" and "op \<noteq> Cleanup"
  shows "\<exists>m. step_on_failure (script_of op env ! k) = Raise m \<and> sublist (named_in_message op k) m"
proof (cases op)
  case PreInstall
  with assms show ?thesis
    by (simp add: pre_install_script_def sublist_code)
next
  case InstallAptPkgs
  with assms show ?thesis
    by (simp add: apt_script_def apt_step_message)
next
  case InstallSnapPkgs
  with assms show ?thesis
    by (simp add: snap_script_def snap_step_message)
next
  case InstallBraveBrowser
  with assms have "k < 3" by (simp add: brave_script_def)
  from nth_cases3 [OF this] InstallBraveBrowser show ?thesis
    by (auto simp add: brave_script_def sublist_code)
next
  case InstallDocker
  with assms have "k < 7" by (simp add: docker_script_def)
  from nth_cases7 [OF this] InstallDocker show ?thesis
    by (auto simp add: docker_script_def docker_step_def sublist_code)
next
  case InstallFishShell
  with assms have "k < 2" by (simp add: fish_script_def)
  from nth_cases2 [OF this] InstallFishShell show ?thesis
    by (auto simp add: fish_script_def sublist_code)
next
  case InstallGoogleChrome
  with assms have "k < 2" by (simp add: chrome_script_def)
  from nth_cases2 [OF this] InstallGoogleChrome show ?thesis
    by (auto simp add: chrome_script_def sublist_code)
next
  case InstallQbittorrent
  with assms have "k < 2" by (simp add: qbittorrent_script_def)
  from nth_cases2 [OF this] InstallQbittorrent show ?thesis
    by (auto simp add: qbittorrent_script_def sublist_code)
next
  case Cleanup
  with assms show ?thesis by simp
qed

lemma cleanup_script_returns_False:
  assumes "k < length (cleanup_script env)"
  shows "step_on_failure (cleanup_script env ! k) = ReturnFalse"
proof -
  from assms have "k < 2" by (simp add: cleanup_script_def)
  from nth_cases2 [OF this] show ?thesis
    by (auto simp add: cleanup_script_def)
qed

text \<open>
  Claim C5 fails on \<^verbatim>\<open>cleanup\<close>. On a machine where removing the downloads
  directory writes an error on stderr, a real failure of that step, \<^verbatim>\<open>cleanup\<close>
  raises no InstallationError: it returns False.
\<close>

theorem cleanup_returns_False:
  "cli_comm (example_env (\<lambda>cmd. ''rm: cannot remove: No such file or directory'')) []
     ''rm -r /home/user/pc-setup/inst_downloads'' =
     Inr ([], ''rm: cannot remove: No such file or directory'') \<and>
   cleanup (example_env (\<lambda>cmd. ''rm: cannot remove: No such file or directory'')) init_state =
     (Inr False, \<lparr>trace = [''rm -r /home/user/pc-setup/inst_downloads''], printed = []\<rparr>)"
  by (simp add: cleanup_def example_env_sel init_state_def DOWNLOADS_PATH_def run_defs)

text \<open>
  Claim C5, amended. Take any of \<^verbatim>\<open>pre_install\<close>, \<^verbatim>\<open>install_apt_pkgs\<close>,
  \<^verbatim>\<open>install_snap_pkgs\<close>, \<^verbatim>\<open>install_brave_browser\<close>, \<^verbatim>\<open>install_docker\<close>,
  \<^verbatim>\<open>install_fish_shell\<close>, \<^verbatim>\<open>install_google_chrome\<close>,
  \<^verbatim>\<open>install_qbittorrent\<close> and \<^verbatim>\<open>cleanup\<close>, and let step \<open>k\<close> be its first
  step whose error output is a real failure. Then \<^verbatim>\<open>cleanup\<close> returns False, and
  every other one raises an InstallationError whose message carries the name of the
  failing package or program; in both cases no later command is run.
\<close>

theorem real_failure_raises_or_cleanup_returns_False:
  assumes "k < length (script_of op env)"
    and "\<forall>i<k. step_passes env (script_of op env ! i)
                 (trace s @ take i (commands (script_of op env)))"
    and "cli_comm env (trace s @ take k (commands (script_of op env)))
           (commands (script_of op env) ! k) = Inr (outs, errs)"
    and "real_failure env (step_classified (script_of op env ! k)) errs"
  shows "if op = Cleanup
         then obs (run_operation op env s) =
                (Inr False, trace s @ take (Suc k) (commands (script_of op env)))
         else \<exists>m. obs (run_operation op env s) =
                (Inl (InstallationError m), trace s @ take (Suc k) (commands (script_of op env))) \<and>
                sublist (named_in_message op k) m"
proof -
  have run: "obs (run_operation op env s) = run_script env (script_of op env) (trace s)"
    by (rule operation_script)
  show ?thesis
  proof (cases "op = Cleanup")
    case True
    with assms(1) have "step_on_failure (script_of op env ! k) = ReturnFalse"
      by (simp add: cleanup_script_returns_False)
    with run_script_real_failure [OF assms] True show ?thesis
      unfolding run by simp
  next
    case False
    from script_messages [OF assms(1) False] obtain m where
      m: "step_on_failure (script_of op env ! k) = Raise m" "sublist (named_in_message op k) m"
      by blast
    with run_script_real_failure [OF assms] False show ?thesis
      unfolding run by simp
  qed
qed

theorem real_failure_raises_or_cleanup_returns_False_witness:
  "(\<exists>m. obs (run_operation InstallFishShell
            (example_env (\<lambda>cmd. if cmd = ''apt update -y && apt install -y fish''
                                 then ''E: Unable to locate package fish'' else []))
            init_state) =
          (Inl (InstallationError m),
           [''apt-add-repository ppa:fish-shell/release-3 -y'',
            ''apt update -y && apt install -y fish'']) \<and>
        sublist ''Fish'' m) \<and>
   obs (run_operation Cleanup
          (example_env (\<lambda>cmd. if cmd = ''apt autoclean && apt clean''
                               then ''E: Could not get lock /var/lib/dpkg/lock'' else []))
          init_state) =
     (Inr False, [''rm -r /home/user/pc-setup/inst_downloads'', ''apt autoclean && apt clean''])"
proof -
  let ?fish = "example_env (\<lambda>cmd. if cmd = ''apt update -y && apt install -y fish''
                                 then ''E: Unable to locate package fish'' else [])"
  let ?clean = "example_env (\<lambda>cmd. if cmd = ''apt autoclean && apt clean''
                               then ''E: Could not get lock /var/lib/dpkg/lock'' else [])"
  have car1: "car_apt_warning [''dpkg-preconfigure: unable to re-open stdin'']
      ''E: Unable to locate package fish'' \<noteq> []"
    by (simp add: car_apt_warning_def benign_line_def newline_def sublist_code)
  have car2: "car_apt_warning [''dpkg-preconfigure: unable to re-open stdin'']
      ''E: Could not get lock /var/lib/dpkg/lock'' \<noteq> []"
    by (simp add: car_apt_warning_def benign_line_def newline_def sublist_code)
  show ?thesis
    using real_failure_raises_or_cleanup_returns_False
        [of 1 InstallFishShell ?fish init_state "[]" "''E: Unable to locate package fish''"]
      real_failure_raises_or_cleanup_returns_False
        [of 1 Cleanup ?clean init_state "[]" "''E: Could not get lock /var/lib/dpkg/lock''"]
      car1 car2
    by (simp add: fish_script_def cleanup_script_def commands_def step_passes_def
        real_failure_def example_env_sel init_state_def DOWNLOADS_PATH_def)
qed

lemma apt_script_facts:
  "commands apt_script = apt_cmds"
  "length apt_script = length list_apt_pkgs"
  "k < length list_apt_pkgs \<Longrightarrow> step_classified (apt_script ! k) = True"
  "k < length list_apt_pkgs \<Longrightarrow>
     step_on_failure (apt_script ! k) = Raise (''Failed to install '' @ list_apt_pkgs ! k @ ''.'')"
  by (simp_all add: apt_script_def apt_cmds_def commands_def apt_step_def comp_def)

text \<open>
  Claim C6. \<^verbatim>\<open>install_apt_pkgs\<close> goes through the packages of
  \<^verbatim>\<open>list_apt_pkgs\<close> in list order. Let the packages before package \<open>k\<close> have
  passed (empty stderr, or stderr that the classifier turns into the empty text) and let
  the runner return for package \<open>k\<close>. The command run for it is
  \<^verbatim>\<open>apt install -y <pkg>\<close>. The run ends right after that command with the
  InstallationError naming the package if and only if its stderr is not empty and the
  classifier returns a non-empty text for it. Otherwise the run goes on with the command
  of the next package, and returns True when package \<open>k\<close> was the last one.
\<close>

theorem install_apt_pkgs_each_package:
  assumes "k < length list_apt_pkgs"
    and "\<forall>i<k. \<exists>outs errs.
           cli_comm env (trace s @ take i apt_cmds) (apt_cmds ! i) = Inr (outs, errs) \<and>
           (errs = [] \<or> cli_car_apt_warning env errs = [])"
    and "cli_comm env (trace s @ take k apt_cmds) (apt_cmds ! k) = Inr (outs, errs)"
  shows "apt_cmds ! k = ''apt install -y '' @ list_apt_pkgs ! k \<and>
         (obs (install_apt_pkgs env s) =
            (Inl (InstallationError (''Failed to install '' @ list_apt_pkgs ! k @ ''.'')),
             trace s @ take (Suc k) apt_cmds)
          \<longleftrightarrow> errs \<noteq> [] \<and> cli_car_apt_warning env errs \<noteq> []) \<and>
         (errs = [] \<or> cli_car_apt_warning env errs = [] \<longrightarrow>
            (if Suc k = length list_apt_pkgs
             then obs (install_apt_pkgs env s) = (Inr True, trace s @ apt_cmds)
             else prefix (trace s @ take (Suc (Suc k)) apt_cmds)
                    (trace (snd (install_apt_pkgs env s)))))"
proof -
  have k: "k < length apt_script"
    using assms(1) by (simp add: apt_script_facts)
  have before: "\<forall>i<k. step_passes env (apt_script ! i) (trace s @ take i (commands apt_script))"
  proof (intro allI impI)
    fix i assume i: "i < k"
    with assms(1) have il: "i < length list_apt_pkgs" by simp
    from i assms(2) obtain outs' errs' where
      "cli_comm env (trace s @ take i apt_cmds) (apt_cmds ! i) = Inr (outs', errs')"
      "errs' = [] \<or> cli_car_apt_warning env errs' = []"
      by blast
    moreover have "step_cmd (apt_script ! i) = apt_cmds ! i"
      using il by (simp add: apt_script_def apt_cmds_def apt_step_def)
    ultimately show "step_passes env (apt_script ! i) (trace s @ take i (commands apt_script))"
      using il by (auto simp add: step_passes_def real_failure_def apt_script_facts)
  qed
  have at: "cli_comm env (trace s @ take k (commands apt_script)) (commands apt_script ! k) =
      Inr (outs, errs)"
    using assms(3) by (simp add: apt_script_facts)
  have cmd: "step_cmd (apt_script ! k) = apt_cmds ! k"
    using assms(1) by (simp add: apt_script_def apt_cmds_def apt_step_def)
  have real: "real_failure env (step_classified (apt_script ! k)) errs \<longleftrightarrow>
      errs \<noteq> [] \<and> cli_car_apt_warning env errs \<noteq> []"
    using assms(1) by (simp add: real_failure_def apt_script_facts)
  have passes: "step_passes env (apt_script ! k) (trace s @ take k (commands apt_script)) \<longleftrightarrow>
      errs = [] \<or> cli_car_apt_warning env errs = []"
    using assms(3) real cmd by (auto simp add: step_passes_def apt_script_facts)
  have run: "obs (install_apt_pkgs env s) = run_script env apt_script (trace s)"
    by (rule install_apt_pkgs_script)
  have tr: "trace (snd (install_apt_pkgs env s)) = snd (run_script env apt_script (trace s))"
    using obs_parts(2) [of "install_apt_pkgs env s"] by (simp add: run)
  have c1: "apt_cmds ! k = ''apt install -y '' @ list_apt_pkgs ! k"
    using assms(1) by (simp add: apt_cmds_def)
  have c2: "obs (install_apt_pkgs env s) =
            (Inl (InstallationError (''Failed to install '' @ list_apt_pkgs ! k @ ''.'')),
             trace s @ take (Suc k) apt_cmds)
          \<longleftrightarrow> errs \<noteq> [] \<and> cli_car_apt_warning env errs \<noteq> []"
  proof (cases "errs \<noteq> [] \<and> cli_car_apt_warning env errs \<noteq> []")
    case True
    with real have "real_failure env (step_classified (apt_script ! k)) errs" by simp
    from run_script_real_failure [OF k before at this] True assms(1) show ?thesis
      unfolding run by (simp add: apt_script_facts)
  next
    case False
    with passes have "step_passes env (apt_script ! k) (trace s @ take k (commands apt_script))"
      by simp
    from run_script_passed_no_raise [OF k before this] False show ?thesis
      unfolding run by (simp add: apt_script_facts)
  qed
  have c3: "errs = [] \<or> cli_car_apt_warning env errs = [] \<longrightarrow>
            (if Suc k = length list_apt_pkgs
             then obs (install_apt_pkgs env s) = (Inr True, trace s @ apt_cmds)
             else prefix (trace s @ take (Suc (Suc k)) apt_cmds)
                    (trace (snd (install_apt_pkgs env s))))"
  proof
    assume "errs = [] \<or> cli_car_apt_warning env errs = []"
    with passes have "step_passes env (apt_script ! k) (trace s @ take k (commands apt_script))"
      by simp
    from run_script_passed [OF k before this] show
      "if Suc k = length list_apt_pkgs
       then obs (install_apt_pkgs env s) = (Inr True, trace s @ apt_cmds)
       else prefix (trace s @ take (Suc (Suc k)) apt_cmds) (trace (snd (install_apt_pkgs env s)))"
      unfolding run tr by (simp add: apt_script_facts cong: if_cong)
  qed
  from c1 c2 c3 show ?thesis by blast
qed

theorem install_apt_pkgs_each_package_witness:
  "obs (install_apt_pkgs
          (example_env (\<lambda>cmd.
             if cmd = ''apt install -y build-essential''
             then ''dpkg-preconfigure: unable to re-open stdin''
             else if cmd = ''apt install -y python3-dev''
             then ''E: Unable to locate package python3-dev'' else []))
          init_state) =
     (Inl (InstallationError ''Failed to install python3-dev.''),
      [''apt install -y build-essential'', ''apt install -y python3-dev'']) \<and>
   obs (install_apt_pkgs (example_env (\<lambda>cmd. [])) init_state) = (Inr True, apt_cmds)"
proof -
  let ?env = "example_env (\<lambda>cmd.
             if cmd = ''apt install -y build-essential''
             then ''dpkg-preconfigure: unable to re-open stdin''
             else if cmd = ''apt install -y python3-dev''
             then ''E: Unable to locate package python3-dev'' else [])"
  have car1: "car_apt_warning [''dpkg-preconfigure: unable to re-open stdin'']
      ''dpkg-preconfigure: unable to re-open stdin'' = []"
    by (simp add: car_apt_warning_def benign_line_def newline_def)
  have car2: "car_apt_warning [''dpkg-preconfigure: unable to re-open stdin'']
      ''E: Unable to locate package python3-dev'' \<noteq> []"
    by (simp add: car_apt_warning_def benign_line_def newline_def sublist_code)
  have len: "length list_apt_pkgs = 13"
    by (simp add: list_apt_pkgs_def)
  have first: "obs (install_apt_pkgs ?env init_state) =
     (Inl (InstallationError ''Failed to install python3-dev.''),
      [''apt install -y build-essential'', ''apt install -y python3-dev''])"
    using install_apt_pkgs_each_package
        [of 1 ?env init_state "[]" "''E: Unable to locate package python3-dev''"]
      car1 car2
    by (simp add: list_apt_pkgs_def apt_cmds_def example_env_sel init_state_def)
  have second: "obs (install_apt_pkgs (example_env (\<lambda>cmd. [])) init_state) = (Inr True, apt_cmds)"
    using install_apt_pkgs_each_package
        [of 12 "example_env (\<lambda>cmd. [])" init_state "[]" "[]"]
    by (simp add: len example_env_sel init_state_def)
  from first second show ?thesis by simp
qed

lemma call_comm_classifier:
  "call_comm (env\<lparr>cli_car_apt_warning := c\<rparr>) cmd = call_comm env cmd"
  by (rule ext) (simp add: call_comm_def)

lemma install_snap_pkgs_loop_classifier:
  "install_snap_pkgs_loop (env\<lparr>cli_car_apt_warning := c\<rparr>) pkgs = install_snap_pkgs_loop env pkgs"
  by (induction pkgs) (simp_all add: call_comm_classifier)

lemma snap_script_facts:
  "commands snap_script = snap_cmds"
  "length snap_script = length snap_order"
  "k < length snap_order \<Longrightarrow> step_classified (snap_script ! k) = False"
  "k < length snap_order \<Longrightarrow>
     step_on_failure (snap_script ! k) = Raise (''Failed to install '' @ snap_order ! k @ ''.'')"
  by (simp_all add: snap_script_def snap_cmds_def commands_def snap_step_def comp_def)

text \<open>
  Claim C8. \<^verbatim>\<open>install_snap_pkgs\<close> raises InstallationError on any non-empty
  stderr of a \<^verbatim>\<open>snap install\<close> command: when the packages before package \<open>k\<close>
  of the installation order gave an empty stderr and package \<open>k\<close> gives a non-empty
  one, the run ends there with the InstallationError naming that package, whatever the
  warning classifier would return for that text. The classifier is not applied:
  replacing it by any other function changes nothing in the run.
\<close>

theorem install_snap_pkgs_without_classifier:
  assumes "k < length snap_order"
    and "\<forall>i<k. \<exists>outs. cli_comm env (trace s @ take i snap_cmds) (snap_cmds ! i) = Inr (outs, [])"
    and "cli_comm env (trace s @ take k snap_cmds) (snap_cmds ! k) = Inr (outs, errs)"
    and "errs \<noteq> []"
  shows "obs (install_snap_pkgs env s) =
           (Inl (InstallationError (''Failed to install '' @ snap_order ! k @ ''.'')),
            trace s @ take (Suc k) snap_cmds) \<and>
         install_snap_pkgs (env\<lparr>cli_car_apt_warning := c\<rparr>) s = install_snap_pkgs env s"
proof -
  have k: "k < length snap_script"
    using assms(1) by (simp add: snap_script_facts)
  have before: "\<forall>i<k. step_passes env (snap_script ! i) (trace s @ take i (commands snap_script))"
  proof (intro allI impI)
    fix i assume i: "i < k"
    with assms(1) have il: "i < length snap_order" by simp
    from i assms(2) obtain outs' where
      "cli_comm env (trace s @ take i snap_cmds) (snap_cmds ! i) = Inr (outs', [])"
      by blast
    moreover have "step_cmd (snap_script ! i) = snap_cmds ! i"
      using il by (simp add: snap_script_def snap_cmds_def snap_step_def)
    ultimately show "step_passes env (snap_script ! i) (trace s @ take i (commands snap_script))"
      using il by (simp add: step_passes_def real_failure_def snap_script_facts)
  qed
  have at: "cli_comm env (trace s @ take k (commands snap_script)) (commands snap_script ! k) =
      Inr (outs, errs)"
    using assms(3) by (simp add: snap_script_facts)
  have real: "real_failure env (step_classified (snap_script ! k)) errs"
    using assms(1,4) by (simp add: real_failure_def snap_script_facts)
  have run: "obs (install_snap_pkgs env s) = run_script env snap_script (trace s)"
    by (rule install_snap_pkgs_script)
  have c1: "obs (install_snap_pkgs env s) =
           (Inl (InstallationError (''Failed to install '' @ snap_order ! k @ ''.'')),
            trace s @ take (Suc k) snap_cmds)"
    using run_script_real_failure [OF k before at real] assms(1)
    unfolding run by (simp add: snap_script_facts)
  have c2: "install_snap_pkgs (env\<lparr>cli_car_apt_warning := c\<rparr>) s = install_snap_pkgs env s"
    by (simp add: install_snap_pkgs_def install_snap_pkgs_loop_classifier)
  from c1 c2 show ?thesis by simp
qed

lemma snap_order_eq:
  "snap_order =
     [''sublime-text --classic'', ''code --classic'', ''bitwarden'', ''jdownloader2'',
      ''libreoffice'', ''signal-desktop'', ''spotify'', ''vlc'']"
  by (simp add: snap_order_def list_snap_pkgs_def sublist_code)

theorem install_snap_pkgs_without_classifier_witness:
  "cli_car_apt_warning (example_env (\<lambda>cmd. ''dpkg-preconfigure: unable to re-open stdin''))
     ''dpkg-preconfigure: unable to re-open stdin'' = [] \<and>
   obs (install_snap_pkgs (example_env (\<lambda>cmd. ''dpkg-preconfigure: unable to re-open stdin''))
          init_state) =
     (Inl (InstallationError ''Failed to install sublime-text --classic.''),
      [''snap install  sublime-text --classic''])"
proof -
  have car: "car_apt_warning [''dpkg-preconfigure: unable to re-open stdin'']
      ''dpkg-preconfigure: unable to re-open stdin'' = []"
    by (simp add: car_apt_warning_def benign_line_def newline_def)
  show ?thesis
    using install_snap_pkgs_without_classifier
        [of 0 "example_env (\<lambda>cmd. ''dpkg-preconfigure: unable to re-open stdin'')" init_state
            "[]" "''dpkg-preconfigure: unable to re-open stdin''"] car
    by (simp add: snap_order_eq snap_cmds_def example_env_sel init_state_def)
qed

text \<open>
  Claim C10. The first loop of \<^verbatim>\<open>install_snap_pkgs\<close> splits the snap list into
  the packages whose entry contains \<^verbatim>\<open>--classic\<close> and the others, each group in
  list order. The commands of a run are a beginning of: one \<^verbatim>\<open>snap install\<close> per
  flagged package in list order, then one per unflagged package in list order; a run
  that returns True has run them all.
\<close>

theorem install_snap_pkgs_flagged_first:
  "separate_flagged list_snap_pkgs ([], []) =
     (filter (\<lambda>pkg. \<not> sublist ''--classic'' pkg) list_snap_pkgs,
      filter (sublist ''--classic'') list_snap_pkgs) \<and>
   (\<exists>j\<le>length list_snap_pkgs.
      trace (snd (install_snap_pkgs env s)) =
        trace s @
        take j (map (\<lambda>pkg. ''snap install '' @ '' '' @ pkg)
                  (filter (sublist ''--classic'') list_snap_pkgs @
                   filter (\<lambda>pkg. \<not> sublist ''--classic'' pkg) list_snap_pkgs)) \<and>
      (fst (install_snap_pkgs env s) = Inr True \<longrightarrow> j = length list_snap_pkgs))"
proof -
  have len: "length snap_script = length list_snap_pkgs"
    by (simp add: snap_script_def snap_order_eq list_snap_pkgs_def)
  have cmds: "commands snap_script =
      map (\<lambda>pkg. ''snap install '' @ '' '' @ pkg)
        (filter (sublist ''--classic'') list_snap_pkgs @
         filter (\<lambda>pkg. \<not> sublist ''--classic'' pkg) list_snap_pkgs)"
    by (simp add: snap_script_def snap_order_def commands_def snap_step_def comp_def)
  have run: "obs (install_snap_pkgs env s) = run_script env snap_script (trace s)"
    by (rule install_snap_pkgs_script)
  have parts: "fst (install_snap_pkgs env s) = fst (run_script env snap_script (trace s))"
    "trace (snd (install_snap_pkgs env s)) = snd (run_script env snap_script (trace s))"
    using obs_parts [of "install_snap_pkgs env s"] by (simp_all add: run)
  from run_script_trace [of snap_script env "trace s"]
  have "\<exists>j\<le>length list_snap_pkgs.
      trace (snd (install_snap_pkgs env s)) =
        trace s @
        take j (map (\<lambda>pkg. ''snap install '' @ '' '' @ pkg)
                  (filter (sublist ''--classic'') list_snap_pkgs @
                   filter (\<lambda>pkg. \<not> sublist ''--classic'' pkg) list_snap_pkgs)) \<and>
      (fst (install_snap_pkgs env s) = Inr True \<longrightarrow> j = length list_snap_pkgs)"
    unfolding parts len cmds .
  then show ?thesis
    by (simp add: separate_flagged_filter)
qed

theorem install_snap_pkgs_flagged_first_witness:
  "obs (install_snap_pkgs (example_env (\<lambda>cmd. [])) init_state) =
     (Inr True,
      [''snap install  sublime-text --classic'', ''snap install  code --classic'',
       ''snap install  bitwarden'', ''snap install  jdownloader2'',
       ''snap install  libreoffice'', ''snap install  signal-desktop'',
       ''snap install  spotify'', ''snap install  vlc''])"
proof -
  have r: "fst (install_snap_pkgs (example_env (\<lambda>cmd. [])) init_state) = Inr True"
    using run_script_all_pass [of snap_script "example_env (\<lambda>cmd. [])" "[]"]
      obs_parts(1) [of "install_snap_pkgs (example_env (\<lambda>cmd. [])) init_state"]
    by (simp add: install_snap_pkgs_script step_passes_def real_failure_def example_env_sel
        init_state_def)
  have o: "filter (sublist ''--classic'') list_snap_pkgs @
      filter (\<lambda>pkg. \<not> sublist ''--classic'' pkg) list_snap_pkgs =
      [''sublime-text --classic'', ''code --classic'', ''bitwarden'', ''jdownloader2'',
       ''libreoffice'', ''signal-desktop'', ''spotify'', ''vlc'']"
    using snap_order_eq by (simp add: snap_order_def)
  have len: "length list_snap_pkgs = 8"
    by (simp add: list_snap_pkgs_def)
  show ?thesis
    using install_snap_pkgs_flagged_first [of "example_env (\<lambda>cmd. [])" init_state] r
    unfolding o len
    by (auto simp add: obs_def init_state_def)
qed

lemma guarded_steps:
  assumes "list_all plain_step sc"
  shows "list_all (\<lambda>st. step_guard st = Some m \<and>
            (step_on_failure st = Raise m \<or> step_on_failure st = GoOn)) (map (guard m) sc)"
  using assms
  by (induction sc) (auto simp add: guard_sel plain_step_def split: on_failure.split)

lemma not_ppkd_steps:
  "list_all (\<lambda>st. \<exists>m. step_guard st = Some m \<and>
      (step_on_failure st = Raise m \<or> step_on_failure st = GoOn)) (not_ppkd_script env)"
proof -
  have w: "\<And>m sc. list_all plain_step sc \<Longrightarrow>
      list_all (\<lambda>st. \<exists>m. step_guard st = Some m \<and>
        (step_on_failure st = Raise m \<or> step_on_failure st = GoOn)) (map (guard m) sc)"
  proof -
    fix m sc assume "list_all plain_step sc"
    from guarded_steps [OF this, of m] show
      "list_all (\<lambda>st. \<exists>m. step_guard st = Some m \<and>
        (step_on_failure st = Raise m \<or> step_on_failure st = GoOn)) (map (guard m) sc)"
      by (auto simp add: list_all_iff)
  qed
  show ?thesis
    unfolding not_ppkd_script_def list_all_append
    by (intro conjI w plain_scripts) simp
qed

lemma not_ppkd_guards:
  "map step_guard (not_ppkd_script env) =
     replicate 3 (Some ''Brave browser was not installed'') @
     replicate 7 (Some ''Docker was not installed.'') @
     replicate 2 (Some ''Fish shell was not installed.'') @
     replicate 2 (Some ''Google Chrome was not installed.'') @
     [Some ''Poetry was not installed.'', Some ''qbittorrent was not installed.'']"
  by (simp add: not_ppkd_script_def brave_script_def docker_script_def fish_script_def
      chrome_script_def poetry_script_def guard_sel comp_def numeral_3_eq_3 numeral_2_eq_2
      eval_nat_numeral)

text \<open>
  Claim C7 fails on \<^verbatim>\<open>install_not_ppkd_prog\<close>. On a machine where only the first
  command of \<^verbatim>\<open>install_brave_browser\<close> writes an error on stderr,
  \<^verbatim>\<open>install_not_ppkd_prog\<close> raises InstallationError and has run that one command:
  the failure of the Brave installer ends the whole sequence of programs, and no command
  of Docker, Fish, Chrome or Poetry is run, although each would succeed.
\<close>

theorem install_not_ppkd_prog_stops_after_brave:
  "obs (install_not_ppkd_prog
          (example_env (\<lambda>cmd.
             if cmd = ''curl -fsSLo /usr/share/keyrings/brave-browser-archive-keyring.gpg '' @
                      ''https://brave-browser-apt-release.s3.brave.com/brave-browser-archive-keyring.gpg''
             then ''curl: (22) The requested URL returned error: 404'' else []))
          init_state) =
     (Inl (InstallationError ''Brave browser was not installed''),
      [''curl -fsSLo /usr/share/keyrings/brave-browser-archive-keyring.gpg '' @
       ''https://brave-browser-apt-release.s3.brave.com/brave-browser-archive-keyring.gpg''])"
  by (simp add: install_not_ppkd_prog_def install_brave_browser_def example_env_sel
      init_state_def obs_def run_defs)

lemma not_ppkd_script_length: "length (not_ppkd_script env) = 16"
  by (simp add: not_ppkd_script_def brave_script_def docker_script_def fish_script_def
      chrome_script_def poetry_script_def)

lemma not_ppkd_guards_first_five:
  "take 15 (map step_guard (not_ppkd_script env)) =
     replicate 3 (Some ''Brave browser was not installed'') @
     replicate 7 (Some ''Docker was not installed.'') @
     replicate 2 (Some ''Fish shell was not installed.'') @
     replicate 2 (Some ''Google Chrome was not installed.'') @
     [Some ''Poetry was not installed.'']"
  by (simp add: not_ppkd_guards eval_nat_numeral)

text \<open>
  Claim C7, amended. Take the first five blocks of \<^verbatim>\<open>install_not_ppkd_prog\<close>:
  Brave, Docker, Fish, Chrome and Poetry, whose steps are the steps 0 to 14 of the
  whole sequence (3, 7, 2, 2 and 1 steps). When the installer of one of them fails, that
  is, the steps before step \<open>k\<close> have passed and step \<open>k\<close> either raises an
  exception that the \<^verbatim>\<open>try\<close> block catches or gives a real failure that its
  installer raises, then \<^verbatim>\<open>install_not_ppkd_prog\<close> itself raises the
  InstallationError naming the program of that step, and no later command is run,
  neither of that program nor of any later program. In particular, when
  \<^verbatim>\<open>install_brave_browser\<close> raises, \<^verbatim>\<open>install_not_ppkd_prog\<close> ends in the
  state that the Brave installer left, with the InstallationError
  \<^verbatim>\<open>Brave browser was not installed\<close>. Nothing is said of the sixth block.
\<close>

theorem install_not_ppkd_prog_first_failure_ends_all:
  assumes "k < 15"
    and "\<forall>i<k. step_passes env (not_ppkd_script env ! i) (trace s @ take i (not_ppkd_cmds env))"
    and "cli_comm env (trace s @ take k (not_ppkd_cmds env)) (not_ppkd_cmds env ! k) = r"
    and "case r of
           Inl e \<Rightarrow> caught e
         | Inr (outs, errs) \<Rightarrow>
             real_failure env (step_classified (not_ppkd_script env ! k)) errs \<and>
             step_on_failure (not_ppkd_script env ! k) \<noteq> GoOn"
  shows "(\<exists>m. take 15 (map step_guard (not_ppkd_script env)) ! k = Some m \<and>
              obs (install_not_ppkd_prog env s) =
                (Inl (InstallationError m), trace s @ take (Suc k) (not_ppkd_cmds env))) \<and>
         take 15 (map step_guard (not_ppkd_script env)) =
           replicate 3 (Some ''Brave browser was not installed'') @
           replicate 7 (Some ''Docker was not installed.'') @
           replicate 2 (Some ''Fish shell was not installed.'') @
           replicate 2 (Some ''Google Chrome was not installed.'') @
           [Some ''Poetry was not installed.''] \<and>
         (\<forall>e s'. install_brave_browser env (s\<lparr>printed := printed s @ [''Installing Brave Browser...'']\<rparr>) =
                   (Inl e, s') \<and> caught e \<longrightarrow>
                 install_not_ppkd_prog env s =
                   (Inl (InstallationError ''Brave browser was not installed''), s'))"
proof -
  let ?sc = "not_ppkd_script env"
  have kl: "k < length ?sc"
    using assms(1) by (simp add: not_ppkd_script_length)
  have run: "obs (install_not_ppkd_prog env s) = run_script env ?sc (trace s)"
    by (rule install_not_ppkd_prog_script)
  from not_ppkd_steps [of env] kl obtain m where
    m: "step_guard (?sc ! k) = Some m" "step_on_failure (?sc ! k) = Raise m \<or> step_on_failure (?sc ! k) = GoOn"
    by (auto simp add: list_all_length)
  have before: "\<forall>i<k. step_passes env (?sc ! i) (trace s @ take i (commands ?sc))"
    using assms(2) by (simp add: not_ppkd_cmds_def)
  have "run_script env ?sc (trace s) =
      (Inl (InstallationError m), trace s @ take (Suc k) (commands ?sc))"
  proof (cases r)
    case (Inl e)
    with assms(3,4) have at: "cli_comm env (trace s @ take k (commands ?sc)) (commands ?sc ! k) = Inl e"
      and c: "caught e"
      by (simp_all add: not_ppkd_cmds_def)
    from run_script_exception [OF kl before at] m c show ?thesis by simp
  next
    case (Inr p)
    obtain outs errs where p: "p = (outs, errs)" by (cases p)
    with Inr assms(3,4) have
      at: "cli_comm env (trace s @ take k (commands ?sc)) (commands ?sc ! k) = Inr (outs, errs)"
      and real: "real_failure env (step_classified (?sc ! k)) errs"
      and go: "step_on_failure (?sc ! k) \<noteq> GoOn"
      by (simp_all add: not_ppkd_cmds_def)
    from run_script_real_failure [OF kl before at real] m go show ?thesis by simp
  qed
  moreover have "take 15 (map step_guard ?sc) ! k = step_guard (?sc ! k)"
    using assms(1) kl by simp
  ultimately have c1: "\<exists>m. take 15 (map step_guard ?sc) ! k = Some m \<and>
      obs (install_not_ppkd_prog env s) =
        (Inl (InstallationError m), trace s @ take (Suc k) (not_ppkd_cmds env))"
    using m(1) unfolding run by (simp add: not_ppkd_cmds_def)
  have c3: "\<forall>e s'. install_brave_browser env (s\<lparr>printed := printed s @ [''Installing Brave Browser...'']\<rparr>) =
                   (Inl e, s') \<and> caught e \<longrightarrow>
                 install_not_ppkd_prog env s =
                   (Inl (InstallationError ''Brave browser was not installed''), s')"
    by (simp add: install_not_ppkd_prog_def run_defs)
  from c1 not_ppkd_guards_first_five [of env] c3 show ?thesis by blast
qed

theorem install_not_ppkd_prog_first_failure_ends_all_witness:
  "obs (install_not_ppkd_prog
          (example_env (\<lambda>cmd. if cmd = ''apt update -y''
                               then ''E: The repository does not have a Release file.'' else []))
          init_state) =
     (Inl (InstallationError ''Docker was not installed.''),
      take 6 (not_ppkd_cmds (example_env (\<lambda>cmd. [])))) \<and>
   obs (install_not_ppkd_prog
          ((example_env (\<lambda>cmd. []))\<lparr>cli_comm := (\<lambda>h cmd. Inl TimeoutExpired)\<rparr>)
          init_state) =
     (Inl (InstallationError ''Brave browser was not installed''),
      take 1 (not_ppkd_cmds (example_env (\<lambda>cmd. []))))"
proof -
  let ?docker = "example_env (\<lambda>cmd. if cmd = ''apt update -y''
                               then ''E: The repository does not have a Release file.'' else [])"
  let ?hung = "(example_env (\<lambda>cmd. []))\<lparr>cli_comm := (\<lambda>h cmd. Inl TimeoutExpired)\<rparr>"
  have car: "car_apt_warning [''dpkg-preconfigure: unable to re-open stdin'']
      ''E: The repository does not have a Release file.'' \<noteq> []"
    by (simp add: car_apt_warning_def benign_line_def newline_def sublist_code)
  have sc: "not_ppkd_script ?docker = not_ppkd_script (example_env (\<lambda>cmd. []))"
    "not_ppkd_script ?hung = not_ppkd_script (example_env (\<lambda>cmd. []))"
    by (simp_all add: not_ppkd_script_def chrome_script_def poetry_script_def DOWNLOADS_PATH_def
        example_env_def)
  have first6: "take 6 (not_ppkd_script (example_env (\<lambda>cmd. []))) =
      map (guard ''Brave browser was not installed'') brave_script @
      map (guard ''Docker was not installed.'') (take 3 docker_script)"
    by (simp add: not_ppkd_script_def brave_script_def docker_script_def)
  have before: "\<forall>i<5. step_passes ?docker (not_ppkd_script (example_env (\<lambda>cmd. [])) ! i)
      (trace init_state @ take i (not_ppkd_cmds (example_env (\<lambda>cmd. []))))"
  proof (intro allI impI)
    fix i :: nat assume "i < 5"
    then have "i = 0 \<or> i = 1 \<or> i = 2 \<or> i = 3 \<or> i = 4" by arith
    then show "step_passes ?docker (not_ppkd_script (example_env (\<lambda>cmd. [])) ! i)
      (trace init_state @ take i (not_ppkd_cmds (example_env (\<lambda>cmd. []))))"
      by (auto simp add: not_ppkd_script_def brave_script_def docker_script_def guard_sel
          step_passes_def real_failure_def example_env_sel)
  qed
  have len: "length (not_ppkd_script (example_env (\<lambda>cmd. []))) = 16"
    by (simp add: not_ppkd_script_def brave_script_def docker_script_def fish_script_def
        chrome_script_def poetry_script_def)
  have k5: "not_ppkd_script (example_env (\<lambda>cmd. [])) ! 5 =
      guard ''Docker was not installed.''
        (Step ''apt update -y'' True (Raise ''Failed to install Docker apt packages.'') None)"
    by (simp add: not_ppkd_script_def brave_script_def docker_script_def)
  have g: "map step_guard (not_ppkd_script (example_env (\<lambda>cmd. []))) ! 5 =
      Some ''Docker was not installed.''"
    "map step_guard (not_ppkd_script (example_env (\<lambda>cmd. []))) ! 0 =
      Some ''Brave browser was not installed''"
    by (simp_all add: not_ppkd_guards eval_nat_numeral)
  have c5: "commands (not_ppkd_script (example_env (\<lambda>cmd. []))) ! 5 = ''apt update -y''"
    using len k5 by (simp add: commands_def guard_sel)
  have one: "obs (install_not_ppkd_prog ?docker init_state) =
     (Inl (InstallationError ''Docker was not installed.''),
      take 6 (not_ppkd_cmds (example_env (\<lambda>cmd. []))))"
    using install_not_ppkd_prog_first_failure_ends_all
        [of 5 ?docker init_state "Inr ([], ''E: The repository does not have a Release file.'')"]
      before car len
    by (simp add: sc not_ppkd_cmds_def g c5 k5 guard_sel real_failure_def example_env_sel
        init_state_def)
  have two: "obs (install_not_ppkd_prog ?hung init_state) =
     (Inl (InstallationError ''Brave browser was not installed''),
      take 1 (not_ppkd_cmds (example_env (\<lambda>cmd. []))))"
    using install_not_ppkd_prog_first_failure_ends_all
        [of 0 ?hung init_state "Inl TimeoutExpired"] len
    by (simp add: sc not_ppkd_cmds_def g init_state_def)
  from one two show ?thesis by simp
qed

lemma not_ppkd_cmds_eq:
  "not_ppkd_cmds env =
     commands brave_script @ commands docker_script @ commands fish_script @
     commands (chrome_script env) @ commands (poetry_script env) @ commands (poetry_script env)"
  by (simp add: not_ppkd_cmds_def not_ppkd_script_def commands_def guard_sel comp_def)

lemma qbittorrent_not_in_not_ppkd_cmds:
  "''add-apt-repository ppa:qbittorrent-team/qbittorrent-stable -y'' \<notin> set (not_ppkd_cmds env)"
  "''apt update -y && apt install qbittorrent -y'' \<notin> set (not_ppkd_cmds env)"
  by (simp_all add: not_ppkd_cmds_eq commands_def brave_script_def docker_script_def
      docker_step_def fish_script_def chrome_script_def poetry_script_def)

lemma run_script_go_on_only: "snd (run_script env [Step c cl GoOn g] h) = h @ [c]"
  by (cases "cli_comm env h c") (auto split: prod.split)

text \<open>
  Claim C9. \<^verbatim>\<open>install_not_ppkd_prog\<close> never invokes \<^verbatim>\<open>install_qbittorrent\<close>:
  in every run, neither the command adding the qbittorrent repository nor the command
  installing qbittorrent is among the commands run, whereas any call of
  \<^verbatim>\<open>install_qbittorrent\<close> starts by running the first of them. A run that returns
  True ends with the command of \<^verbatim>\<open>install_poetry\<close> run twice in a row: the last
  block, whose handler says \<^verbatim>\<open>qbittorrent was not installed.\<close>, calls
  \<^verbatim>\<open>install_poetry\<close> again.
\<close>

theorem install_not_ppkd_prog_never_runs_qbittorrent:
  "''add-apt-repository ppa:qbittorrent-team/qbittorrent-stable -y'' \<notin>
     set (drop (length (trace s)) (trace (snd (install_not_ppkd_prog env s)))) \<and>
   ''apt update -y && apt install qbittorrent -y'' \<notin>
     set (drop (length (trace s)) (trace (snd (install_not_ppkd_prog env s)))) \<and>
   prefix (trace s' @ [''add-apt-repository ppa:qbittorrent-team/qbittorrent-stable -y''])
     (trace (snd (install_qbittorrent env s'))) \<and>
   trace (snd (install_poetry env s')) = trace s' @ commands (poetry_script env) \<and>
   length (commands (poetry_script env)) = 1 \<and>
   (fst (install_not_ppkd_prog env s) = Inr True \<longrightarrow>
      (\<exists>cmds. drop (length (trace s)) (trace (snd (install_not_ppkd_prog env s))) =
         cmds @ commands (poetry_script env) @ commands (poetry_script env))) \<and>
   step_guard (last (not_ppkd_script env)) = Some ''qbittorrent was not installed.''"
proof -
  let ?run = "install_not_ppkd_prog env s"
  have parts: "fst ?run = fst (run_script env (not_ppkd_script env) (trace s))"
    "trace (snd ?run) = snd (run_script env (not_ppkd_script env) (trace s))"
    using obs_parts [of ?run] by (simp_all add: install_not_ppkd_prog_script)
  from run_script_trace [of "not_ppkd_script env" env "trace s"] obtain j where
    j: "trace (snd ?run) = trace s @ take j (not_ppkd_cmds env)"
      "fst ?run = Inr True \<longrightarrow> j = length (not_ppkd_script env)"
    unfolding parts [symmetric] not_ppkd_cmds_def by blast
  have new: "drop (length (trace s)) (trace (snd ?run)) = take j (not_ppkd_cmds env)"
    using j(1) by simp
  have sub: "set (take j (not_ppkd_cmds env)) \<subseteq> set (not_ppkd_cmds env)"
    by (rule set_take_subset)
  have c1: "''add-apt-repository ppa:qbittorrent-team/qbittorrent-stable -y'' \<notin>
     set (drop (length (trace s)) (trace (snd ?run)))"
    unfolding new using sub qbittorrent_not_in_not_ppkd_cmds(1) [of env] by blast
  have c2: "''apt update -y && apt install qbittorrent -y'' \<notin>
     set (drop (length (trace s)) (trace (snd ?run)))"
    unfolding new using sub qbittorrent_not_in_not_ppkd_cmds(2) [of env] by blast
  have c3: "prefix (trace s' @ [''add-apt-repository ppa:qbittorrent-team/qbittorrent-stable -y''])
     (trace (snd (install_qbittorrent env s')))"
    using run_script_head [of "trace s'"
        "Step ''add-apt-repository ppa:qbittorrent-team/qbittorrent-stable -y''
           False (Raise ''Failed to add qbittorrent ppa.'') None" env
        "[Step ''apt update -y && apt install qbittorrent -y''
            True (Raise ''Failed to install qbittorrent.'') None]"]
      obs_parts(2) [of "install_qbittorrent env s'"]
    by (simp only: install_qbittorrent_script qbittorrent_script_def step.sel)
  have c4: "trace (snd (install_poetry env s')) = trace s' @ commands (poetry_script env)"
    using obs_parts(2) [of "install_poetry env s'"]
    unfolding install_poetry_script poetry_script_def commands_def
    by (simp only: run_script_go_on_only list.map step.sel)
  have c5: "length (commands (poetry_script env)) = 1"
    by (simp add: poetry_script_def commands_def)
  have c6: "fst ?run = Inr True \<longrightarrow>
      (\<exists>cmds. drop (length (trace s)) (trace (snd ?run)) =
         cmds @ commands (poetry_script env) @ commands (poetry_script env))"
  proof
    assume "fst ?run = Inr True"
    with j(2) have "take j (not_ppkd_cmds env) = not_ppkd_cmds env"
      by (simp add: not_ppkd_cmds_def commands_def)
    then have "drop (length (trace s)) (trace (snd ?run)) =
        (commands brave_script @ commands docker_script @ commands fish_script @
         commands (chrome_script env)) @ commands (poetry_script env) @ commands (poetry_script env)"
      unfolding new by (simp add: not_ppkd_cmds_eq)
    then show "\<exists>cmds. drop (length (trace s)) (trace (snd ?run)) =
         cmds @ commands (poetry_script env) @ commands (poetry_script env)"
      by blast
  qed
  have c7: "step_guard (last (not_ppkd_script env)) = Some ''qbittorrent was not installed.''"
    by (simp add: not_ppkd_script_def poetry_script_def guard_sel)
  from c1 c2 c3 c4 c5 c6 c7 show ?thesis by blast
qed

theorem install_not_ppkd_prog_never_runs_qbittorrent_witness:
  \<open>fst (install_not_ppkd_prog (example_env (\<lambda>cmd. [])) init_state) = Inr True \<and>
   (\<exists>cmds. trace (snd (install_not_ppkd_prog (example_env (\<lambda>cmd. [])) init_state)) =
      cmds @
      [''curl -sSL https://raw.githubusercontent.com/python-poetry/poetry/master/get-poetry.py | python3 -'',
       ''curl -sSL https://raw.githubusercontent.com/python-poetry/poetry/master/get-poetry.py | python3 -'']) \<and>
   drop 38 (printed (snd (install_not_ppkd_prog (example_env (\<lambda>cmd. [])) init_state))) =
     [''Installing qbittorrent...'', ''Executing Poetry's installation script...'',
      ''Execution successful.'', ''Successfully installed qbittorrent.'']\<close>
proof -
  let ?run = "install_not_ppkd_prog (example_env (\<lambda>cmd. [])) init_state"
  have r: "fst ?run = Inr True"
    by (simp add: install_not_ppkd_prog_def install_brave_browser_def install_docker_def
        install_fish_shell_def install_google_chrome_def install_poetry_def
        example_env_sel init_state_def run_defs Let_def)
  have p: \<open>drop 38 (printed (snd ?run)) =
     [''Installing qbittorrent...'', ''Executing Poetry's installation script...'',
      ''Execution successful.'', ''Successfully installed qbittorrent.'']\<close>
    by (simp add: install_not_ppkd_prog_def install_brave_browser_def install_docker_def
        install_fish_shell_def install_google_chrome_def install_poetry_def
        example_env_sel init_state_def run_defs Let_def)
  have t: "\<exists>cmds. trace (snd ?run) =
      cmds @
      [''curl -sSL https://raw.githubusercontent.com/python-poetry/poetry/master/get-poetry.py | python3 -'',
       ''curl -sSL https://raw.githubusercontent.com/python-poetry/poetry/master/get-poetry.py | python3 -'']"
    using install_not_ppkd_prog_never_runs_qbittorrent
        [of init_state "example_env (\<lambda>cmd. [])" init_state] r
    by (simp add: poetry_script_def commands_def example_env_sel init_state_def)
  from r t p show ?thesis by blast
qed

end
